theory Spec2Isabelle
  imports Complex_Main "HOL-Library.Monad_Syntax"
begin

section \<open>Numbers\<close>

text \<open>
  The engine computes on JavaScript numbers. Dollar amounts, rates and ratios are
  modelled as exact reals (every finite double is one; rounding error of the
  floating-point operations is not modelled). Two things a JavaScript number can be
  and a real cannot are written out:
  \<^item> \<open>Infinity\<close>, which the bracket tables use as the upper bound of the top
    bracket, is the constructor \<open>Infinity\<close> of \<open>xnum\<close>;
  \<^item> a quotient with denominator zero, or \<open>Infinity - Infinity\<close>, is not a
    finite number (\<open>NaN\<close> or an infinity of the wrong sign): such an operation
    returns \<open>None\<close>, and every function that performs one returns an option.
\<close>

definition round_js :: "real \<Rightarrow> real" where
  \<comment> \<open>\<open>Math.round\<close>: the nearest integer, halves towards plus infinity.\<close>
  "round_js x = of_int \<lfloor>x + 1 / 2\<rfloor>"

definition div_js :: "real \<Rightarrow> real \<Rightarrow> real option" where
  "div_js x y = (if y = 0 then None else Some (x / y))"

datatype xnum = Fin real | Infinity

fun x_sub_fin :: "xnum \<Rightarrow> real \<Rightarrow> xnum" where
  "x_sub_fin (Fin a) b = Fin (a - b)"
| "x_sub_fin Infinity b = Infinity"

fun x_sub :: "xnum \<Rightarrow> xnum \<Rightarrow> xnum option" where
  "x_sub (Fin a) (Fin b) = Some (Fin (a - b))"
| "x_sub Infinity (Fin b) = Some Infinity"
| "x_sub (Fin a) Infinity = None"
| "x_sub Infinity Infinity = None"

fun x_div :: "xnum \<Rightarrow> real \<Rightarrow> xnum option" where
  "x_div (Fin a) d = (if d = 0 then None else Some (Fin (a / d)))"
| "x_div Infinity d = (if 0 < d then Some Infinity else None)"

fun x_le :: "xnum \<Rightarrow> xnum \<Rightarrow> bool" where
  "x_le (Fin a) (Fin b) = (a \<le> b)"
| "x_le (Fin a) Infinity = True"
| "x_le Infinity (Fin b) = False"
| "x_le Infinity Infinity = True"

fun x_lt :: "xnum \<Rightarrow> xnum \<Rightarrow> bool" where
  "x_lt (Fin a) (Fin b) = (a < b)"
| "x_lt (Fin a) Infinity = True"
| "x_lt Infinity b = False"

fun x_max :: "real \<Rightarrow> xnum \<Rightarrow> xnum" where
  \<comment> \<open>\<open>Math.max\<close> of a finite number and a possibly infinite one.\<close>
  "x_max a (Fin b) = Fin (max a b)"
| "x_max a Infinity = Infinity"

fun x_min :: "real \<Rightarrow> xnum \<Rightarrow> real" where
  \<comment> \<open>\<open>Math.min\<close> of a finite number and a possibly infinite one: always finite.\<close>
  "x_min a (Fin b) = min a b"
| "x_min a Infinity = a"

section \<open>Data model (types)\<close>

text \<open>
  The interfaces of the source as records, with an optional field or a nullable slot as
  an option. The constant \<open>type\<close> tags of the account interfaces and the
  human-readable strings (\<open>explanation\<close>, \<open>description\<close>) are left out: no
  computation reads them. Ages are whole numbers (the form parses them with
  \<open>parseInt\<close>). A field name that several interfaces share carries the interface as a
  suffix.
\<close>

datatype FilingStatus = single | mfj | mfs | hoh

record TaxableAccount =
  balance_taxable :: real
  costBasis :: real
  unrealizedGains :: real

record TraditionalAccount =
  balance_traditional :: real
  priorYearEndBalance :: "real option"

record RothAccount =
  balance_roth :: real

record SocialSecurityIncome =
  annualBenefit_ss :: real

record PensionIncome =
  annualBenefit_pension :: real
  cola :: real

record Portfolio =
  taxable :: "TaxableAccount option"
  traditional :: "TraditionalAccount option"
  roth :: "RothAccount option"
  socialSecurity :: "SocialSecurityIncome option"
  pension :: "PensionIncome option"

datatype StateTaxMethod = none | rate | fixed

datatype TargetType = afterTax | gross

record IncomeGoal =
  targetType :: TargetType
  amount_goal :: real
  filingStatus :: FilingStatus
  primaryAge :: int
  spouseAge :: "int option"
  useItemizedDeductions :: bool
  itemizedAmount :: "real option"
  stateTaxMethod :: StateTaxMethod
  stateTaxRate :: "real option"
  stateTaxFixedAmount :: "real option"
  planningHorizon :: int

record WithdrawalStrategy =
  traditionalWithdrawal :: real
  taxableWithdrawal :: real
  rothWithdrawal :: real
  socialSecurityIncome :: real
  pensionIncome :: real
  rmdAmount :: real
  isSystemGenerated :: bool

record RMDInfo =
  isRequired :: bool
  amount_rmd :: real
  age_rmd :: int
  priorYearBalance :: real
  distributionPeriod :: real

record TaxBracket =
  min_bracket :: real
  max_bracket :: xnum
  rate_bracket :: real

section \<open>Constants (rmdTables, tax2026)\<close>

definition RMD_START_AGE :: int where
  "RMD_START_AGE = 73"

definition UNIFORM_LIFETIME_TABLE :: "(int \<times> real) list" where
  "UNIFORM_LIFETIME_TABLE =
    [(72, 27.4), (73, 26.5), (74, 25.5), (75, 24.6), (76, 23.7), (77, 22.9), (78, 22.0),
     (79, 21.1), (80, 20.2), (81, 19.4), (82, 18.5), (83, 17.7), (84, 16.8), (85, 16.0),
     (86, 15.2), (87, 14.4), (88, 13.7), (89, 12.9), (90, 12.2), (91, 11.5), (92, 10.8),
     (93, 10.1), (94, 9.5), (95, 8.9), (96, 8.4), (97, 7.8), (98, 7.3), (99, 6.8),
     (100, 6.4), (101, 6.0), (102, 5.6), (103, 5.2), (104, 4.9), (105, 4.6), (106, 4.3),
     (107, 4.1), (108, 3.9), (109, 3.7), (110, 3.5), (111, 3.4), (112, 3.3), (113, 3.1),
     (114, 3.0), (115, 2.9), (116, 2.8), (117, 2.7), (118, 2.5), (119, 2.3), (120, 2.0)]"

definition getDistributionPeriod :: "int \<Rightarrow> real option" where
  \<comment> \<open>\<open>UNIFORM_LIFETIME_TABLE[age] ?? UNIFORM_LIFETIME_TABLE[120]\<close>; \<open>None\<close> is
      \<open>undefined\<close>, the value of a lookup of a missing key.\<close>
  "getDistributionPeriod age =
     (if age < RMD_START_AGE then Some 0
      else (case map_of UNIFORM_LIFETIME_TABLE age of
              Some d \<Rightarrow> Some d
            | None \<Rightarrow> map_of UNIFORM_LIFETIME_TABLE 120))"

definition FEDERAL_BRACKETS :: "FilingStatus \<Rightarrow> TaxBracket list" where
  "FEDERAL_BRACKETS fs = (case fs of
     single \<Rightarrow>
      [\<lparr>min_bracket = 0, max_bracket = Fin 12400, rate_bracket = 0.10\<rparr>,
       \<lparr>min_bracket = 12400, max_bracket = Fin 50400, rate_bracket = 0.12\<rparr>,
       \<lparr>min_bracket = 50400, max_bracket = Fin 105700, rate_bracket = 0.22\<rparr>,
       \<lparr>min_bracket = 105700, max_bracket = Fin 201775, rate_bracket = 0.24\<rparr>,
       \<lparr>min_bracket = 201775, max_bracket = Fin 256225, rate_bracket = 0.32\<rparr>,
       \<lparr>min_bracket = 256225, max_bracket = Fin 640600, rate_bracket = 0.35\<rparr>,
       \<lparr>min_bracket = 640600, max_bracket = Infinity, rate_bracket = 0.37\<rparr>]
   | mfj \<Rightarrow>
      [\<lparr>min_bracket = 0, max_bracket = Fin 24800, rate_bracket = 0.10\<rparr>,
       \<lparr>min_bracket = 24800, max_bracket = Fin 100800, rate_bracket = 0.12\<rparr>,
       \<lparr>min_bracket = 100800, max_bracket = Fin 211400, rate_bracket = 0.22\<rparr>,
       \<lparr>min_bracket = 211400, max_bracket = Fin 403550, rate_bracket = 0.24\<rparr>,
       \<lparr>min_bracket = 403550, max_bracket = Fin 512450, rate_bracket = 0.32\<rparr>,
       \<lparr>min_bracket = 512450, max_bracket = Fin 768700, rate_bracket = 0.35\<rparr>,
       \<lparr>min_bracket = 768700, max_bracket = Infinity, rate_bracket = 0.37\<rparr>]
   | mfs \<Rightarrow>
      [\<lparr>min_bracket = 0, max_bracket = Fin 12400, rate_bracket = 0.10\<rparr>,
       \<lparr>min_bracket = 12400, max_bracket = Fin 50400, rate_bracket = 0.12\<rparr>,
       \<lparr>min_bracket = 50400, max_bracket = Fin 105700, rate_bracket = 0.22\<rparr>,
       \<lparr>min_bracket = 105700, max_bracket = Fin 201775, rate_bracket = 0.24\<rparr>,
       \<lparr>min_bracket = 201775, max_bracket = Fin 256225, rate_bracket = 0.32\<rparr>,
       \<lparr>min_bracket = 256225, max_bracket = Fin 384350, rate_bracket = 0.35\<rparr>,
       \<lparr>min_bracket = 384350, max_bracket = Infinity, rate_bracket = 0.37\<rparr>]
   | hoh \<Rightarrow>
      [\<lparr>min_bracket = 0, max_bracket = Fin 17700, rate_bracket = 0.10\<rparr>,
       \<lparr>min_bracket = 17700, max_bracket = Fin 67450, rate_bracket = 0.12\<rparr>,
       \<lparr>min_bracket = 67450, max_bracket = Fin 105700, rate_bracket = 0.22\<rparr>,
       \<lparr>min_bracket = 105700, max_bracket = Fin 201775, rate_bracket = 0.24\<rparr>,
       \<lparr>min_bracket = 201775, max_bracket = Fin 256200, rate_bracket = 0.32\<rparr>,
       \<lparr>min_bracket = 256200, max_bracket = Fin 640600, rate_bracket = 0.35\<rparr>,
       \<lparr>min_bracket = 640600, max_bracket = Infinity, rate_bracket = 0.37\<rparr>])"

definition STANDARD_DEDUCTION :: "FilingStatus \<Rightarrow> real" where
  "STANDARD_DEDUCTION fs = (case fs of
     single \<Rightarrow> 16100 | mfj \<Rightarrow> 32200 | mfs \<Rightarrow> 16100 | hoh \<Rightarrow> 24150)"

definition CAPITAL_GAINS_BRACKETS :: "FilingStatus \<Rightarrow> TaxBracket list" where
  "CAPITAL_GAINS_BRACKETS fs = (case fs of
     single \<Rightarrow>
      [\<lparr>min_bracket = 0, max_bracket = Fin 49450, rate_bracket = 0\<rparr>,
       \<lparr>min_bracket = 49450, max_bracket = Fin 545500, rate_bracket = 0.15\<rparr>,
       \<lparr>min_bracket = 545500, max_bracket = Infinity, rate_bracket = 0.20\<rparr>]
   | mfj \<Rightarrow>
      [\<lparr>min_bracket = 0, max_bracket = Fin 98900, rate_bracket = 0\<rparr>,
       \<lparr>min_bracket = 98900, max_bracket = Fin 613700, rate_bracket = 0.15\<rparr>,
       \<lparr>min_bracket = 613700, max_bracket = Infinity, rate_bracket = 0.20\<rparr>]
   | mfs \<Rightarrow>
      [\<lparr>min_bracket = 0, max_bracket = Fin 49450, rate_bracket = 0\<rparr>,
       \<lparr>min_bracket = 49450, max_bracket = Fin 306850, rate_bracket = 0.15\<rparr>,
       \<lparr>min_bracket = 306850, max_bracket = Infinity, rate_bracket = 0.20\<rparr>]
   | hoh \<Rightarrow>
      [\<lparr>min_bracket = 0, max_bracket = Fin 66200, rate_bracket = 0\<rparr>,
       \<lparr>min_bracket = 66200, max_bracket = Fin 579600, rate_bracket = 0.15\<rparr>,
       \<lparr>min_bracket = 579600, max_bracket = Infinity, rate_bracket = 0.20\<rparr>])"

record SSThresholds =
  zeroThreshold :: real
  fiftyThreshold :: real

definition SS_TAXATION_THRESHOLDS_single :: SSThresholds where
  "SS_TAXATION_THRESHOLDS_single = \<lparr>zeroThreshold = 25000, fiftyThreshold = 34000\<rparr>"

definition SS_TAXATION_THRESHOLDS_mfj :: SSThresholds where
  "SS_TAXATION_THRESHOLDS_mfj = \<lparr>zeroThreshold = 32000, fiftyThreshold = 44000\<rparr>"

section \<open>RMD calculator (rmd.ts)\<close>

definition calculateRMD :: "int \<Rightarrow> real \<Rightarrow> RMDInfo option" where
  "calculateRMD age priorBal =
     (if age < RMD_START_AGE \<or> priorBal \<le> 0 then
        Some \<lparr>isRequired = False, amount_rmd = 0, age_rmd = age,
              priorYearBalance = priorBal, distributionPeriod = 0\<rparr>
      else do {
        dp \<leftarrow> getDistributionPeriod age;
        q \<leftarrow> div_js priorBal dp;
        Some \<lparr>isRequired = True, amount_rmd = round_js q, age_rmd = age,
              priorYearBalance = priorBal, distributionPeriod = dp\<rparr>
      })"

section \<open>Social Security taxability (socialSecurity.ts)\<close>

record SSResult =
  taxableAmount :: real
  taxablePercent :: real
  provisionalIncome :: real

definition calculateSocialSecurityTaxable ::
    "real \<Rightarrow> real \<Rightarrow> real \<Rightarrow> FilingStatus \<Rightarrow> SSResult option" where
  \<comment> \<open>The \<open>explanation\<close> string of the result is left out.\<close>
  "calculateSocialSecurityTaxable ssBenefits otherIncome taxExemptInterest fs =
     (if ssBenefits \<le> 0 then
        Some \<lparr>taxableAmount = 0, taxablePercent = 0, provisionalIncome = 0\<rparr>
      else
        let thresholds = (if fs = mfj then SS_TAXATION_THRESHOLDS_mfj
                          else SS_TAXATION_THRESHOLDS_single);
            provisional = otherIncome + taxExemptInterest + ssBenefits * 0.5
        in if provisional \<le> zeroThreshold thresholds then
             Some \<lparr>taxableAmount = round_js 0, taxablePercent = 0,
                   provisionalIncome = provisional\<rparr>
           else if provisional \<le> fiftyThreshold thresholds then do {
             let excessOverFirst = provisional - zeroThreshold thresholds;
             let amt = min (ssBenefits * 0.5) (excessOverFirst * 0.5);
             q \<leftarrow> div_js amt ssBenefits;
             Some \<lparr>taxableAmount = round_js amt, taxablePercent = q * 100,
                   provisionalIncome = provisional\<rparr>
           } else do {
             let baseAmount = min (ssBenefits * 0.5)
                   ((fiftyThreshold thresholds - zeroThreshold thresholds) * 0.5);
             let excessOverSecond = provisional - fiftyThreshold thresholds;
             let additionalTaxable = excessOverSecond * 0.85;
             let amt = min (ssBenefits * 0.85) (baseAmount + additionalTaxable);
             q \<leftarrow> div_js amt ssBenefits;
             Some \<lparr>taxableAmount = round_js amt, taxablePercent = q * 100,
                   provisionalIncome = provisional\<rparr>
           })"

section \<open>Deductions (deductions.ts)\<close>

datatype DeductionType = standard | itemized

record DeductionResult =
  amount_deduction :: real
  type_deduction :: DeductionType

definition truthy_num :: "real option \<Rightarrow> bool" where
  \<comment> \<open>JavaScript truthiness of an optional number: neither \<open>undefined\<close> nor \<open>0\<close>.\<close>
  "truthy_num x = (case x of None \<Rightarrow> False | Some v \<Rightarrow> v \<noteq> 0)"

definition calculateDeduction :: "FilingStatus \<Rightarrow> bool \<Rightarrow> real option \<Rightarrow> DeductionResult" where
  \<comment> \<open>The \<open>explanation\<close> string of the result is left out.\<close>
  "calculateDeduction fs useItemized itemizedAmt =
     (let standardAmount = STANDARD_DEDUCTION fs in
      case itemizedAmt of
        None \<Rightarrow> \<lparr>amount_deduction = standardAmount, type_deduction = standard\<rparr>
      | Some a \<Rightarrow>
          if \<not> useItemized \<or> \<not> truthy_num (Some a) then
            \<lparr>amount_deduction = standardAmount, type_deduction = standard\<rparr>
          else if a > standardAmount then
            \<lparr>amount_deduction = a, type_deduction = itemized\<rparr>
          else
            \<lparr>amount_deduction = standardAmount, type_deduction = standard\<rparr>)"

section \<open>Ordinary-income bracket calculator (taxBrackets.ts)\<close>

datatype Account = acc_traditional | acc_taxable | acc_roth | acc_socialSecurity | acc_pension

datatype TaxCharacter = ordinary | capitalGains | taxFree | partiallyTaxable

record IncomeSource =
  account :: Account
  amount_source :: real
  taxCharacter :: TaxCharacter

record BracketFill =
  rate_fill :: real
  bracketMin :: real
  bracketMax :: xnum
  incomeInBracket :: real
  taxFromBracket :: real
  sources :: "IncomeSource list"

record OrdinaryTaxResult =
  tax_ordinary :: real
  bracketFill_ordinary :: "BracketFill list"
  marginalRate :: real

fun bracketSources_loop :: "IncomeSource list \<Rightarrow> real \<Rightarrow> real \<Rightarrow> IncomeSource list option" where
  \<comment> \<open>The inner \<open>for (const source of incomeSources)\<close>: the sources pushed for one bracket.\<close>
  "bracketSources_loop [] totalSourceAmount inB = Some []"
| "bracketSources_loop (source # rest) totalSourceAmount inB = do {
     proportion \<leftarrow> div_js (amount_source source) totalSourceAmount;
     let sourceAmountInBracket = inB * proportion;
     pushed \<leftarrow> bracketSources_loop rest totalSourceAmount inB;
     Some (if sourceAmountInBracket > 0
           then source\<lparr>amount_source := sourceAmountInBracket\<rparr> # pushed
           else pushed)
   }"

fun ordinary_loop :: "TaxBracket list \<Rightarrow> IncomeSource list \<Rightarrow> real \<Rightarrow>
    real \<Rightarrow> real \<Rightarrow> BracketFill list \<Rightarrow> real \<Rightarrow> OrdinaryTaxResult option" where
  \<comment> \<open>The \<open>for (const bracket of brackets)\<close> loop on the state
      \<open>(remainingIncome, totalTax, bracketFill, marginalRate)\<close>.\<close>
  "ordinary_loop [] srcs totalSourceAmount remainingIncome totalTax fill marginal =
     Some \<lparr>tax_ordinary = totalTax, bracketFill_ordinary = fill, marginalRate = marginal\<rparr>"
| "ordinary_loop (bracket # rest) srcs totalSourceAmount remainingIncome totalTax fill marginal =
     (if remainingIncome \<le> 0 then
        Some \<lparr>tax_ordinary = totalTax, bracketFill_ordinary = fill, marginalRate = marginal\<rparr>
      else do {
        let bracketSize = x_sub_fin (max_bracket bracket) (min_bracket bracket);
        let inB = x_min remainingIncome bracketSize;
        let taxFromB = inB * rate_bracket bracket;
        bracketSources \<leftarrow>
          (if length srcs > 0 \<and> totalSourceAmount > 0
           then bracketSources_loop srcs totalSourceAmount inB else Some []);
        ordinary_loop rest srcs totalSourceAmount
          (remainingIncome - inB)
          (totalTax + taxFromB)
          (fill @ [\<lparr>rate_fill = rate_bracket bracket * 100,
                    bracketMin = min_bracket bracket,
                    bracketMax = max_bracket bracket,
                    incomeInBracket = inB,
                    taxFromBracket = taxFromB,
                    sources = bracketSources\<rparr>])
          (if inB > 0 then rate_bracket bracket else marginal)
      })"

definition calculateOrdinaryIncomeTax ::
    "real \<Rightarrow> FilingStatus \<Rightarrow> IncomeSource list \<Rightarrow> OrdinaryTaxResult option" where
  "calculateOrdinaryIncomeTax taxableIncome' fs incomeSources =
     ordinary_loop (FEDERAL_BRACKETS fs) incomeSources
       (foldl (\<lambda>sum s. sum + amount_source s) 0 incomeSources)
       (max 0 taxableIncome') 0 [] 0"

section \<open>Capital-gains bracket calculator (capitalGains.ts)\<close>

record GainsInBracket =
  rate_gains :: real
  amount_gains :: real
  tax_gains :: real

record CapitalGainsResult =
  tax_capgains :: real
  effectiveRate_capgains :: real
  bracketBreakdown :: "GainsInBracket list"

fun capgains_loop :: "TaxBracket list \<Rightarrow> real \<Rightarrow> real \<Rightarrow> GainsInBracket list \<Rightarrow> xnum \<Rightarrow>
    (real \<times> GainsInBracket list) option" where
  \<comment> \<open>The loop on the state \<open>(totalTax, remainingGains, bracketBreakdown, incomeProcessed)\<close>;
      it returns \<open>totalTax\<close> and \<open>bracketBreakdown\<close>.\<close>
  "capgains_loop [] totalTax remainingGains breakdown incomeProcessed =
     Some (totalTax, breakdown)"
| "capgains_loop (bracket # rest) totalTax remainingGains breakdown incomeProcessed =
     (if remainingGains \<le> 0 then Some (totalTax, breakdown)
      else if x_le (max_bracket bracket) incomeProcessed then
        capgains_loop rest totalTax remainingGains breakdown incomeProcessed
      else do {
        let gainsStartInBracket = x_max (min_bracket bracket) incomeProcessed;
        roomInBracket \<leftarrow> x_sub (max_bracket bracket) gainsStartInBracket;
        let gainsInBracket = x_min remainingGains roomInBracket;
        if gainsInBracket > 0 then
          capgains_loop rest
            (totalTax + gainsInBracket * rate_bracket bracket)
            (remainingGains - gainsInBracket)
            (breakdown @ [\<lparr>rate_gains = rate_bracket bracket * 100,
                           amount_gains = gainsInBracket,
                           tax_gains = gainsInBracket * rate_bracket bracket\<rparr>])
            (max_bracket bracket)
        else
          capgains_loop rest totalTax remainingGains breakdown (max_bracket bracket)
      })"

definition calculateCapitalGainsTax ::
    "real \<Rightarrow> real \<Rightarrow> FilingStatus \<Rightarrow> CapitalGainsResult option" where
  "calculateCapitalGainsTax longTermGains taxableOrdinaryIncome fs =
     (if longTermGains \<le> 0 then
        Some \<lparr>tax_capgains = 0, effectiveRate_capgains = 0, bracketBreakdown = []\<rparr>
      else do {
        (totalTax, breakdown) \<leftarrow>
          capgains_loop (CAPITAL_GAINS_BRACKETS fs) 0 longTermGains [] (Fin taxableOrdinaryIncome);
        eff \<leftarrow> (if longTermGains > 0 then div_js totalTax longTermGains else Some 0);
        Some \<lparr>tax_capgains = totalTax, effectiveRate_capgains = eff,
              bracketBreakdown = breakdown\<rparr>
      })"

definition getCapitalGainsRate :: "real \<Rightarrow> FilingStatus \<Rightarrow> real option" where
  \<comment> \<open>The rate of the first bracket whose \<open>max\<close> the income does not exceed, else of the
      last bracket; \<open>None\<close> where the source would read a field of \<open>undefined\<close>.\<close>
  "getCapitalGainsRate totalTaxableIncome fs =
     (let brackets = CAPITAL_GAINS_BRACKETS fs in
      case find (\<lambda>b. x_le (Fin totalTaxableIncome) (max_bracket b)) brackets of
        Some b \<Rightarrow> Some (rate_bracket b * 100)
      | None \<Rightarrow> (case brackets of [] \<Rightarrow> None
                 | _ # _ \<Rightarrow> Some (rate_bracket (last brackets) * 100)))"

section \<open>Tax breakdown orchestrator (calculateTax.ts)\<close>

record CapitalGainsBracket =
  rate_cgbracket :: real
  threshold :: real

record TaxBreakdown =
  ordinaryIncome :: real
  qualifiedDividends :: real
  longTermCapitalGains :: real
  socialSecurityGross :: real
  socialSecurityTaxable :: real
  pensionGross :: real
  pensionTaxable :: real
  rothIncome :: real
  grossIncome :: real
  adjustedGrossIncome :: real
  deductions :: real
  deductionType :: DeductionType
  taxableIncome :: real
  ordinaryIncomeTax :: real
  capitalGainsTax :: real
  stateTax :: real
  bracketFill :: "BracketFill list"
  capitalGainsRate :: real
  capitalGainsBracket :: CapitalGainsBracket
  totalTax :: real
  afterTaxIncome :: real
  effectiveRate :: real
  effectiveRateOnAGI :: real
  effectiveRateOnTaxable :: real
  marginalOrdinaryRate :: real
  marginalCapGainsRate :: real
  rmdAmount_breakdown :: real
  rmdIsSatisfied :: bool

definition gainsRatio :: "TaxableAccount \<Rightarrow> real option" where
  \<comment> \<open>The local \<open>gainsRatio\<close> of \<open>calculateTaxBreakdown\<close>:
      \<open>balance > 0 ? (balance - costBasis) / balance : 0\<close>.\<close>
  "gainsRatio t =
     (if balance_taxable t > 0
      then div_js (balance_taxable t - costBasis t) (balance_taxable t)
      else Some 0)"

definition ordinarySources :: "real \<Rightarrow> real \<Rightarrow> real \<Rightarrow> IncomeSource list" where
  \<comment> \<open>Step 7: the sources pushed for bracket tracing (descriptions left out).\<close>
  "ordinarySources trad pens ssTaxable =
     (if trad > 0
      then [\<lparr>account = acc_traditional, amount_source = trad, taxCharacter = ordinary\<rparr>]
      else []) @
     (if pens > 0
      then [\<lparr>account = acc_pension, amount_source = pens, taxCharacter = ordinary\<rparr>]
      else []) @
     (if ssTaxable > 0
      then [\<lparr>account = acc_socialSecurity, amount_source = ssTaxable,
             taxCharacter = partiallyTaxable\<rparr>]
      else [])"

definition calculateTaxBreakdown ::
    "WithdrawalStrategy \<Rightarrow> Portfolio \<Rightarrow> IncomeGoal \<Rightarrow> TaxBreakdown option" where
  "calculateTaxBreakdown strategy portfolio goal = do {
     let fs = filingStatus goal;
     let trad = traditionalWithdrawal strategy;
     let taxa = taxableWithdrawal strategy;
     let rothW = rothWithdrawal strategy;
     let ssInc = socialSecurityIncome strategy;
     let pens = pensionIncome strategy;
     ltcg \<leftarrow> (case taxable portfolio of
                None \<Rightarrow> Some 0
              | Some t \<Rightarrow>
                  if taxa > 0 then do { r \<leftarrow> gainsRatio t; Some (taxa * r) }
                  else Some 0);
     let otherIncomeForSS = trad + pens + ltcg;
     ssResult \<leftarrow> calculateSocialSecurityTaxable ssInc otherIncomeForSS 0 fs;
     let grossInc = trad + taxa + rothW + ssInc + pens;
     let agi = trad + pens + ltcg + taxableAmount ssResult;
     let deductionResult =
           calculateDeduction fs (useItemizedDeductions goal) (itemizedAmount goal);
     let ordInc = trad + pens + taxableAmount ssResult;
     let taxableOrdinaryIncome = max 0 (ordInc - amount_deduction deductionResult);
     ordinaryTaxResult \<leftarrow>
       calculateOrdinaryIncomeTax taxableOrdinaryIncome fs
         (ordinarySources trad pens (taxableAmount ssResult));
     capGainsResult \<leftarrow> calculateCapitalGainsTax ltcg taxableOrdinaryIncome fs;
     let stTax =
           (if stateTaxMethod goal = rate \<and> truthy_num (stateTaxRate goal) then
              (case stateTaxRate goal of
                 Some r \<Rightarrow> (taxableOrdinaryIncome + ltcg) * r | None \<Rightarrow> 0)
            else if stateTaxMethod goal = fixed \<and> truthy_num (stateTaxFixedAmount goal) then
              (case stateTaxFixedAmount goal of Some a \<Rightarrow> a | None \<Rightarrow> 0)
            else 0);
     let federalTax = tax_ordinary ordinaryTaxResult + tax_capgains capGainsResult;
     let total = federalTax + stTax;
     let afterTax' = grossInc - total;
     effRate \<leftarrow> (if grossInc > 0 then div_js total grossInc else Some 0);
     effRateOnAGI \<leftarrow> (if agi > 0 then div_js total agi else Some 0);
     let totalTaxableIncome = taxableOrdinaryIncome + ltcg;
     effRateOnTaxable \<leftarrow>
       (if totalTaxableIncome > 0 then div_js total totalTaxableIncome else Some 0);
     marginalCG \<leftarrow> getCapitalGainsRate totalTaxableIncome fs;
     Some \<lparr>ordinaryIncome = ordInc,
           qualifiedDividends = 0,
           longTermCapitalGains = ltcg,
           socialSecurityGross = ssInc,
           socialSecurityTaxable = taxableAmount ssResult,
           pensionGross = pens,
           pensionTaxable = pens,
           rothIncome = rothW,
           grossIncome = grossInc,
           adjustedGrossIncome = agi,
           deductions = amount_deduction deductionResult,
           deductionType = type_deduction deductionResult,
           taxableIncome = taxableOrdinaryIncome + ltcg,
           ordinaryIncomeTax = tax_ordinary ordinaryTaxResult,
           capitalGainsTax = tax_capgains capGainsResult,
           stateTax = stTax,
           bracketFill = bracketFill_ordinary ordinaryTaxResult,
           capitalGainsRate = effectiveRate_capgains capGainsResult * 100,
           capitalGainsBracket =
             \<lparr>rate_cgbracket = marginalCG, threshold = totalTaxableIncome\<rparr>,
           totalTax = total,
           afterTaxIncome = afterTax',
           effectiveRate = effRate,
           effectiveRateOnAGI = effRateOnAGI,
           effectiveRateOnTaxable = effRateOnTaxable,
           marginalOrdinaryRate = marginalRate ordinaryTaxResult * 100,
           marginalCapGainsRate = marginalCG,
           rmdAmount_breakdown = rmdAmount strategy,
           rmdIsSatisfied =
             (rmdAmount strategy = 0 \<or> trad \<ge> rmdAmount strategy)\<rparr>
   }"

section \<open>Strategy generator (strategyGenerator.ts)\<close>

record LowBracket =
  max_low :: xnum
  rate_low :: real

definition getLowBrackets :: "FilingStatus \<Rightarrow> LowBracket list" where
  "getLowBrackets fs =
     map (\<lambda>b. \<lparr>max_low = max_bracket b, rate_low = rate_bracket b\<rparr>)
       (filter (\<lambda>b. rate_bracket b \<le> 0.12) (FEDERAL_BRACKETS fs))"

fun estimateOrdinaryTax_loop :: "TaxBracket list \<Rightarrow> real \<Rightarrow> real \<Rightarrow> real" where
  "estimateOrdinaryTax_loop [] tax remaining = tax"
| "estimateOrdinaryTax_loop (bracket # rest) tax remaining =
     (if remaining \<le> 0 then tax
      else
        let bracketSize = x_sub_fin (max_bracket bracket) (min_bracket bracket);
            inB = x_min remaining bracketSize
        in estimateOrdinaryTax_loop rest (tax + inB * rate_bracket bracket) (remaining - inB))"

definition estimateOrdinaryTax :: "real \<Rightarrow> FilingStatus \<Rightarrow> real" where
  "estimateOrdinaryTax taxableIncome' fs =
     estimateOrdinaryTax_loop (FEDERAL_BRACKETS fs) 0 taxableIncome'"

function estimateGross_loop :: "nat \<Rightarrow> real \<Rightarrow> real \<Rightarrow> FilingStatus \<Rightarrow> real \<Rightarrow> real" where
  \<comment> \<open>\<open>for (let i = 0; i < 10; i++)\<close> on the variable \<open>gross\<close>.\<close>
  "estimateGross_loop i grossEst afterTaxTarget fs deduction =
     (if i < 10 then
        let taxableIncome' = max 0 (grossEst - deduction);
            estimatedTax = estimateOrdinaryTax taxableIncome' fs;
            afterTax' = grossEst - estimatedTax
        in if \<bar>afterTax' - afterTaxTarget\<bar> < 500 then grossEst
           else estimateGross_loop (i + 1) (grossEst + (afterTaxTarget - afterTax'))
                  afterTaxTarget fs deduction
      else grossEst)"
  by pat_completeness auto
termination
  by (relation "measure (\<lambda>(i, _). 10 - i)") auto

definition estimateGrossForAfterTax :: "real \<Rightarrow> FilingStatus \<Rightarrow> real \<Rightarrow> real" where
  "estimateGrossForAfterTax afterTaxTarget fs deduction =
     estimateGross_loop 0 afterTaxTarget afterTaxTarget fs deduction"

definition getCurrentSSTaxable ::
    "real \<Rightarrow> real \<Rightarrow> FilingStatus \<Rightarrow> real \<Rightarrow> real \<Rightarrow> real option" where
  \<comment> \<open>The closure \<open>getCurrentSSTaxable\<close> of \<open>generateStrategy\<close>, with the captured
      \<open>ssAnnual\<close>, \<open>pensionAnnual\<close> and \<open>filingStatus\<close> as parameters.\<close>
  "getCurrentSSTaxable ssAnnual pensionAnnual fs traditionalAmt capGains = do {
     r \<leftarrow> calculateSocialSecurityTaxable ssAnnual
            (traditionalAmt + capGains + pensionAnnual) 0 fs;
     Some (taxableAmount r)
   }"

fun fillLowBrackets_loop :: "LowBracket list \<Rightarrow> real \<Rightarrow> real \<Rightarrow> FilingStatus \<Rightarrow> real \<Rightarrow> real \<Rightarrow>
    real \<Rightarrow> real \<Rightarrow> (real \<times> real) option" where
  \<comment> \<open>Strategy 1, \<open>for (const bracket of bracketsToFill)\<close>, on the state
      \<open>(traditionalWithdrawal, remainingNeeded)\<close>.\<close>
  "fillLowBrackets_loop [] ssAnnual pensionAnnual fs deduction traditionalAvailable
       trad remainingNeeded = Some (trad, remainingNeeded)"
| "fillLowBrackets_loop (bracket # rest) ssAnnual pensionAnnual fs deduction traditionalAvailable
       trad remainingNeeded =
     (if remainingNeeded \<le> 0 then Some (trad, remainingNeeded)
      else if trad \<ge> traditionalAvailable then Some (trad, remainingNeeded)
      else do {
        currentSSTaxable \<leftarrow> getCurrentSSTaxable ssAnnual pensionAnnual fs trad 0;
        let currentTaxableOrdinary = trad + currentSSTaxable - deduction;
        let bracketRoom =
              x_max 0 (x_sub_fin (max_low bracket) (max 0 currentTaxableOrdinary));
        if x_lt (Fin 0) bracketRoom then do {
          let ssMultiplier = (if currentSSTaxable > 0 then 1.85 else 1.5);
          effectiveRoom \<leftarrow> x_div bracketRoom ssMultiplier;
          let additionalTraditional =
                x_min (min remainingNeeded (traditionalAvailable - trad)) effectiveRoom;
          fillLowBrackets_loop rest ssAnnual pensionAnnual fs deduction traditionalAvailable
            (trad + additionalTraditional) (remainingNeeded - additionalTraditional)
        } else
          fillLowBrackets_loop rest ssAnnual pensionAnnual fs deduction traditionalAvailable
            trad remainingNeeded
      })"

definition harvestZeroGains ::
    "Portfolio \<Rightarrow> FilingStatus \<Rightarrow> real \<Rightarrow> real \<Rightarrow> real \<Rightarrow> real \<Rightarrow> real \<Rightarrow>
     (real \<times> real) option" where
  \<comment> \<open>Strategy 2: the new \<open>(taxableWithdrawal, remainingNeeded)\<close>. Reading
      \<open>CAPITAL_GAINS_BRACKETS[filingStatus][0].max\<close> of an empty table is \<open>None\<close>.\<close>
  "harvestZeroGains portfolio fs deduction taxableAvailable trad finalSSTaxable remainingNeeded =
     (if remainingNeeded > 0 \<and> taxableAvailable > 0 then
        (case CAPITAL_GAINS_BRACKETS fs of
           [] \<Rightarrow> None
         | zeroCapGainsBracket # _ \<Rightarrow>
             let currentTaxableIncome = trad + finalSSTaxable - deduction in
             if x_lt (Fin currentTaxableIncome) (max_bracket zeroCapGainsBracket) then do {
               let zeroRateRoom =
                     x_sub_fin (max_bracket zeroCapGainsBracket) (max 0 currentTaxableIncome);
               ratio \<leftarrow> (case taxable portfolio of
                            Some t \<Rightarrow>
                              div_js (balance_taxable t - costBasis t) (balance_taxable t)
                          | None \<Rightarrow> Some 0.4);
               let maxGainsAt0Pct = zeroRateRoom;
               maxWithdrawalFor0Pct \<leftarrow>
                 (if ratio > 0 then x_div maxGainsAt0Pct ratio
                  else Some (Fin taxableAvailable));
               let taxableNeeded =
                     x_min (min remainingNeeded taxableAvailable) maxWithdrawalFor0Pct;
               Some (taxableNeeded, remainingNeeded - taxableNeeded)
             } else Some (0, remainingNeeded))
      else Some (0, remainingNeeded))"

definition refine_adjust :: "real \<Rightarrow> WithdrawalStrategy \<Rightarrow> Portfolio \<Rightarrow> WithdrawalStrategy" where
  \<comment> \<open>The body of the refinement loop between the convergence test and the rounding:
      add to Roth, traditional or taxable on a shortfall, reduce traditional (down to
      the RMD), taxable or Roth on a surplus.\<close>
  "refine_adjust difference strategy portfolio =
     (let rothBal = (case roth portfolio of Some a \<Rightarrow> balance_roth a | None \<Rightarrow> 0);
          tradBal = (case traditional portfolio of
                       Some a \<Rightarrow> balance_traditional a | None \<Rightarrow> 0);
          taxaBal = (case taxable portfolio of Some a \<Rightarrow> balance_taxable a | None \<Rightarrow> 0)
      in
      if difference > 0 then
        let rothAvailable = rothBal - rothWithdrawal strategy;
            traditionalAvailable = tradBal - traditionalWithdrawal strategy;
            taxableAvailable = taxaBal - taxableWithdrawal strategy
        in
        if rothAvailable > 0 then
          strategy\<lparr>rothWithdrawal :=
            min (rothWithdrawal strategy + \<bar>difference\<bar>) rothBal\<rparr>
        else if traditionalAvailable > 0 then
          let adjustment = \<bar>difference\<bar> * 1.25 in
          strategy\<lparr>traditionalWithdrawal :=
            min (traditionalWithdrawal strategy + adjustment) tradBal\<rparr>
        else if taxableAvailable > 0 then
          let adjustment = \<bar>difference\<bar> * 1.15 in
          strategy\<lparr>taxableWithdrawal :=
            min (taxableWithdrawal strategy + adjustment) taxaBal\<rparr>
        else strategy
      else
        let minTraditional = rmdAmount strategy in
        if traditionalWithdrawal strategy > minTraditional then
          let reduction = min (\<bar>difference\<bar> * 0.8)
                (traditionalWithdrawal strategy - minTraditional) in
          strategy\<lparr>traditionalWithdrawal := traditionalWithdrawal strategy - reduction\<rparr>
        else if taxableWithdrawal strategy > 0 then
          let reduction = min (\<bar>difference\<bar> * 0.9) (taxableWithdrawal strategy) in
          strategy\<lparr>taxableWithdrawal := taxableWithdrawal strategy - reduction\<rparr>
        else if rothWithdrawal strategy > 0 then
          let reduction = min \<bar>difference\<bar> (rothWithdrawal strategy) in
          strategy\<lparr>rothWithdrawal := rothWithdrawal strategy - reduction\<rparr>
        else strategy)"

definition refine_round :: "WithdrawalStrategy \<Rightarrow> WithdrawalStrategy" where
  \<comment> \<open>"Round values, ensure traditional stays at or above RMD".\<close>
  "refine_round strategy =
     strategy\<lparr>traditionalWithdrawal :=
                max (round_js (traditionalWithdrawal strategy)) (rmdAmount strategy),
              taxableWithdrawal := round_js (taxableWithdrawal strategy),
              rothWithdrawal := round_js (rothWithdrawal strategy)\<rparr>"

definition maxIterations :: nat where
  "maxIterations = 15"

function refine_loop :: "nat \<Rightarrow> WithdrawalStrategy \<Rightarrow> TaxBreakdown \<Rightarrow> Portfolio \<Rightarrow> IncomeGoal \<Rightarrow>
    WithdrawalStrategy option" where
  \<comment> \<open>\<open>while (iterations < maxIterations)\<close> on the state
      \<open>(iterations, strategy, breakdown)\<close>.\<close>
  "refine_loop iterations strategy breakdown portfolio goal =
     (if iterations < maxIterations then
        let difference = amount_goal goal - afterTaxIncome breakdown in
        if \<bar>difference\<bar> < 500 then Some strategy
        else do {
          let strategy' = refine_round (refine_adjust difference strategy portfolio);
          breakdown' \<leftarrow> calculateTaxBreakdown strategy' portfolio goal;
          refine_loop (iterations + 1) strategy' breakdown' portfolio goal
        }
      else Some strategy)"
  by pat_completeness auto
termination
  by (relation "measure (\<lambda>(i, _). maxIterations - i)") auto

definition refineForAfterTaxTarget ::
    "WithdrawalStrategy \<Rightarrow> Portfolio \<Rightarrow> IncomeGoal \<Rightarrow> WithdrawalStrategy option" where
  "refineForAfterTaxTarget initialStrategy portfolio goal = do {
     breakdown \<leftarrow> calculateTaxBreakdown initialStrategy portfolio goal;
     refine_loop 0 initialStrategy breakdown portfolio goal
   }"

definition priorYearBalance_of :: "Portfolio \<Rightarrow> real" where
  \<comment> \<open>\<open>portfolio.traditional?.priorYearEndBalance ?? traditionalAvailable\<close>.\<close>
  "priorYearBalance_of portfolio =
     (case traditional portfolio of
        None \<Rightarrow> 0
      | Some a \<Rightarrow> (case priorYearEndBalance a of
                    Some b \<Rightarrow> b | None \<Rightarrow> balance_traditional a))"

definition generateStrategy :: "Portfolio \<Rightarrow> IncomeGoal \<Rightarrow> WithdrawalStrategy option" where
  "generateStrategy portfolio goal = do {
     let fs = filingStatus goal;
     let traditionalAvailable =
           (case traditional portfolio of Some a \<Rightarrow> balance_traditional a | None \<Rightarrow> 0);
     let taxableAvailable =
           (case taxable portfolio of Some a \<Rightarrow> balance_taxable a | None \<Rightarrow> 0);
     let rothAvailable = (case roth portfolio of Some a \<Rightarrow> balance_roth a | None \<Rightarrow> 0);
     let ssAnnual =
           (case socialSecurity portfolio of Some a \<Rightarrow> annualBenefit_ss a | None \<Rightarrow> 0);
     let pensionAnnual =
           (case pension portfolio of Some a \<Rightarrow> annualBenefit_pension a | None \<Rightarrow> 0);
     rmdInfo \<leftarrow> calculateRMD (primaryAge goal) (priorYearBalance_of portfolio);
     let rmdRequired = amount_rmd rmdInfo;
     let deduction = amount_deduction
           (calculateDeduction fs (useItemizedDeductions goal) (itemizedAmount goal));
     let targetGross =
           (if targetType goal = gross then amount_goal goal
            else estimateGrossForAfterTax (amount_goal goal) fs deduction);
     let remaining0 = targetGross - ssAnnual - pensionAnnual - rmdRequired;
     (trad1, remaining1) \<leftarrow>
       fillLowBrackets_loop (getLowBrackets fs) ssAnnual pensionAnnual fs deduction
         traditionalAvailable rmdRequired remaining0;
     finalSSTaxable \<leftarrow> getCurrentSSTaxable ssAnnual pensionAnnual fs trad1 0;
     (taxa2, remaining2) \<leftarrow>
       harvestZeroGains portfolio fs deduction taxableAvailable trad1 finalSSTaxable remaining1;
     let (roth3, remaining3) =
           (if remaining2 > 0 \<and> rothAvailable > 0
            then (min remaining2 rothAvailable, remaining2 - min remaining2 rothAvailable)
            else (0, remaining2));
     let (trad4, remaining4) =
           (if remaining3 > 0 \<and> trad1 < traditionalAvailable
            then (trad1 + min remaining3 (traditionalAvailable - trad1),
                  remaining3 - min remaining3 (traditionalAvailable - trad1))
            else (trad1, remaining3));
     let (taxa5, remaining5) =
           (if remaining4 > 0 \<and> taxa2 < taxableAvailable
            then (taxa2 + min remaining4 (taxableAvailable - taxa2),
                  remaining4 - min remaining4 (taxableAvailable - taxa2))
            else (taxa2, remaining4));
     let strategy =
           \<lparr>traditionalWithdrawal = max (round_js trad4) rmdRequired,
            taxableWithdrawal = round_js taxa5,
            rothWithdrawal = round_js roth3,
            socialSecurityIncome = round_js ssAnnual,
            pensionIncome = round_js pensionAnnual,
            rmdAmount = rmdRequired,
            isSystemGenerated = True\<rparr>;
     if targetType goal = afterTax then refineForAfterTaxTarget strategy portfolio goal
     else Some strategy
   }"

section \<open>Projection engine (projectionEngine.ts)\<close>

record ProjectionAssumptions =
  growthRate :: real
  inflationRate :: real
  socialSecurityCOLA :: real

record YearBalances =
  traditional_bal :: real
  taxable_bal :: real
  roth_bal :: real
  total_bal :: real

record YearWithdrawals =
  traditional_wd :: real
  taxable_wd :: real
  roth_wd :: real
  socialSecurity_wd :: real
  pension_wd :: real
  total_wd :: real

record YearTaxes =
  federal :: real
  state :: real
  total_taxes :: real

record ProjectionYear =
  year :: int
  age_year :: int
  balances :: YearBalances
  rmdAmount_year :: real
  withdrawals :: YearWithdrawals
  taxes :: YearTaxes
  afterTaxIncome_year :: real
  effectiveRate_year :: real

record RetirementProjection =
  startAge :: int
  endAge :: int
  assumptions :: ProjectionAssumptions
  years :: "ProjectionYear list"
  totalTaxesPaid :: real
  totalWithdrawals :: real
  finalPortfolioValue :: real
  isSustainable :: bool
  depletionAge :: "int option"

text \<open>The variables the year loop updates.\<close>

record ProjectionState =
  traditionalBalance :: real
  taxableBalance :: real
  rothBalance :: real
  taxableCostBasis :: real
  socialSecurityBenefit :: real
  pensionBenefit :: real
  taxesPaid_acc :: real
  withdrawals_acc :: real
  depletionAge_acc :: "int option"
  years_acc :: "ProjectionYear list"

definition totalBalance :: "ProjectionState \<Rightarrow> real" where
  \<comment> \<open>\<open>totalBalance\<close>, computed at the top of the loop body.\<close>
  "totalBalance st = traditionalBalance st + taxableBalance st + rothBalance st"

definition yearPortfolio :: "ProjectionState \<Rightarrow> real \<Rightarrow> Portfolio" where
  "yearPortfolio st pensionCola =
     \<lparr>taxable =
        (if taxableBalance st > 0
         then Some \<lparr>balance_taxable = taxableBalance st, costBasis = taxableCostBasis st,
                    unrealizedGains = taxableBalance st - taxableCostBasis st\<rparr>
         else None),
      traditional =
        (if traditionalBalance st > 0
         then Some \<lparr>balance_traditional = traditionalBalance st,
                    priorYearEndBalance = Some (traditionalBalance st)\<rparr>
         else None),
      roth =
        (if rothBalance st > 0 then Some \<lparr>balance_roth = rothBalance st\<rparr> else None),
      socialSecurity =
        (if socialSecurityBenefit st > 0
         then Some \<lparr>annualBenefit_ss = socialSecurityBenefit st\<rparr> else None),
      pension =
        (if pensionBenefit st > 0
         then Some \<lparr>annualBenefit_pension = pensionBenefit st, cola = pensionCola\<rparr>
         else None)\<rparr>"

definition adjustedGoal :: "IncomeGoal \<Rightarrow> ProjectionAssumptions \<Rightarrow> int \<Rightarrow> IncomeGoal" where
  "adjustedGoal goal assm ageNow =
     (let yearOffset = ageNow - primaryAge goal;
          inflationMultiplier = (1 + inflationRate assm) ^ nat yearOffset
      in goal\<lparr>amount_goal := round_js (amount_goal goal * inflationMultiplier),
              primaryAge := ageNow,
              spouseAge := (case spouseAge goal of
                              None \<Rightarrow> None
                            | Some a \<Rightarrow> if a \<noteq> 0 then Some (a + yearOffset) else None)\<rparr>)"

definition yearStrategy ::
    "Portfolio \<Rightarrow> IncomeGoal \<Rightarrow> bool \<Rightarrow> WithdrawalStrategy option \<Rightarrow> TaxBreakdown option \<Rightarrow>
     ProjectionState \<Rightarrow> (WithdrawalStrategy \<times> TaxBreakdown) option" where
  \<comment> \<open>The three-way choice of this year's \<open>strategy\<close> and \<open>breakdown\<close>.\<close>
  "yearStrategy yp ag isFirstYear initialStrategy initialBreakdown st =
     (case (isFirstYear, initialStrategy, initialBreakdown) of
        (True, Some s0, Some b0) \<Rightarrow> Some (s0, b0)
      | _ \<Rightarrow>
          if totalBalance st > 0 \<or> socialSecurityBenefit st > 0 \<or> pensionBenefit st > 0
          then do {
            s \<leftarrow> generateStrategy yp ag;
            b \<leftarrow> calculateTaxBreakdown s yp ag;
            Some (s, b)
          } else do {
            let s = \<lparr>traditionalWithdrawal = 0, taxableWithdrawal = 0, rothWithdrawal = 0,
                     socialSecurityIncome = socialSecurityBenefit st,
                     pensionIncome = pensionBenefit st,
                     rmdAmount = 0, isSystemGenerated = True\<rparr>;
            b \<leftarrow> calculateTaxBreakdown s yp ag;
            Some (s, b)
          })"

definition projection_year ::
    "IncomeGoal \<Rightarrow> ProjectionAssumptions \<Rightarrow> WithdrawalStrategy option \<Rightarrow> TaxBreakdown option \<Rightarrow>
     real \<Rightarrow> int \<Rightarrow> int \<Rightarrow> ProjectionState \<Rightarrow> ProjectionState option" where
  \<comment> \<open>One pass of the body of \<open>for (let age = startAge; age <= endAge; age++)\<close>.\<close>
  "projection_year goal assm initialStrategy initialBreakdown pensionCola currentYear ageNow st = do {
     let yearOffset = ageNow - primaryAge goal;
     let total = totalBalance st;
     let depl = (if total \<le> 0 \<and> depletionAge_acc st = None
                 then Some ageNow else depletionAge_acc st);
     let yp = yearPortfolio st pensionCola;
     let ag = adjustedGoal goal assm ageNow;
     (strategy, breakdown) \<leftarrow>
       yearStrategy yp ag (ageNow = primaryAge goal) initialStrategy initialBreakdown st;
     let withdrawalsTotal =
           traditionalWithdrawal strategy + taxableWithdrawal strategy +
           rothWithdrawal strategy + socialSecurityIncome strategy + pensionIncome strategy;
     let yearData =
           \<lparr>year = currentYear + yearOffset,
            age_year = ageNow,
            balances = \<lparr>traditional_bal = round_js (traditionalBalance st),
                        taxable_bal = round_js (taxableBalance st),
                        roth_bal = round_js (rothBalance st),
                        total_bal = round_js total\<rparr>,
            rmdAmount_year = rmdAmount strategy,
            withdrawals = \<lparr>traditional_wd = traditionalWithdrawal strategy,
                           taxable_wd = taxableWithdrawal strategy,
                           roth_wd = rothWithdrawal strategy,
                           socialSecurity_wd = socialSecurityIncome strategy,
                           pension_wd = pensionIncome strategy,
                           total_wd = withdrawalsTotal\<rparr>,
            taxes = \<lparr>federal = ordinaryIncomeTax breakdown + capitalGainsTax breakdown,
                     state = stateTax breakdown,
                     total_taxes = totalTax breakdown\<rparr>,
            afterTaxIncome_year = afterTaxIncome breakdown,
            effectiveRate_year = effectiveRate breakdown\<rparr>;
     let trad1 = max 0 (traditionalBalance st - traditionalWithdrawal strategy);
     let taxa1 = max 0 (taxableBalance st - taxableWithdrawal strategy);
     let roth1 = max 0 (rothBalance st - rothWithdrawal strategy);
     basis1 \<leftarrow>
       (case taxable yp of
          None \<Rightarrow> Some (taxableCostBasis st)
        | Some t \<Rightarrow>
            if taxableWithdrawal strategy > 0 then do {
              withdrawalRatio \<leftarrow> div_js (taxableWithdrawal strategy) (balance_taxable t);
              Some (max 0 (taxableCostBasis st * (1 - withdrawalRatio)))
            } else Some (taxableCostBasis st));
     let trad2 = trad1 * (1 + growthRate assm);
     let taxa2 = taxa1 * (1 + growthRate assm);
     let roth2 = roth1 * (1 + growthRate assm);
     let basis2 = (if taxa2 > 0 then basis1 + (taxa2 - basis1) * growthRate assm else basis1);
     Some \<lparr>traditionalBalance = trad2,
           taxableBalance = taxa2,
           rothBalance = roth2,
           taxableCostBasis = basis2,
           socialSecurityBenefit = socialSecurityBenefit st * (1 + socialSecurityCOLA assm),
           pensionBenefit = pensionBenefit st * (1 + pensionCola),
           taxesPaid_acc = taxesPaid_acc st + totalTax breakdown,
           withdrawals_acc = withdrawals_acc st + withdrawalsTotal,
           depletionAge_acc = depl,
           years_acc = years_acc st @ [yearData]\<rparr>
   }"

function projection_loop ::
    "IncomeGoal \<Rightarrow> ProjectionAssumptions \<Rightarrow> WithdrawalStrategy option \<Rightarrow> TaxBreakdown option \<Rightarrow>
     real \<Rightarrow> int \<Rightarrow> int \<Rightarrow> int \<Rightarrow> ProjectionState \<Rightarrow> ProjectionState option" where
  "projection_loop goal assm initialStrategy initialBreakdown pensionCola currentYear
       ageNow lastAge st =
     (if ageNow \<le> lastAge then do {
        st' \<leftarrow> projection_year goal assm initialStrategy initialBreakdown pensionCola
                 currentYear ageNow st;
        projection_loop goal assm initialStrategy initialBreakdown pensionCola currentYear
          (ageNow + 1) lastAge st'
      } else Some st)"
  by pat_completeness auto
termination
  by (relation "measure (\<lambda>(_, _, _, _, _, _, a, e, _). nat (e + 1 - a))") auto

definition initialState :: "Portfolio \<Rightarrow> ProjectionState" where
  \<comment> \<open>The running balances and accumulators before the loop.\<close>
  "initialState portfolio =
     \<lparr>traditionalBalance =
        (case traditional portfolio of Some a \<Rightarrow> balance_traditional a | None \<Rightarrow> 0),
      taxableBalance =
        (case taxable portfolio of Some a \<Rightarrow> balance_taxable a | None \<Rightarrow> 0),
      rothBalance = (case roth portfolio of Some a \<Rightarrow> balance_roth a | None \<Rightarrow> 0),
      taxableCostBasis = (case taxable portfolio of Some a \<Rightarrow> costBasis a | None \<Rightarrow> 0),
      socialSecurityBenefit =
        (case socialSecurity portfolio of Some a \<Rightarrow> annualBenefit_ss a | None \<Rightarrow> 0),
      pensionBenefit =
        (case pension portfolio of Some a \<Rightarrow> annualBenefit_pension a | None \<Rightarrow> 0),
      taxesPaid_acc = 0,
      withdrawals_acc = 0,
      depletionAge_acc = None,
      years_acc = []\<rparr>"

definition pensionCola_of :: "Portfolio \<Rightarrow> real" where
  "pensionCola_of portfolio = (case pension portfolio of Some a \<Rightarrow> cola a | None \<Rightarrow> 0)"

definition generateRetirementProjection ::
    "Portfolio \<Rightarrow> IncomeGoal \<Rightarrow> ProjectionAssumptions \<Rightarrow> WithdrawalStrategy option \<Rightarrow>
     TaxBreakdown option \<Rightarrow> int \<Rightarrow> RetirementProjection option" where
  \<comment> \<open>\<open>currentYear\<close> stands for \<open>new Date().getFullYear()\<close>.\<close>
  "generateRetirementProjection portfolio goal assm initialStrategy initialBreakdown currentYear = do {
     st \<leftarrow> projection_loop goal assm initialStrategy initialBreakdown
             (pensionCola_of portfolio) currentYear
             (primaryAge goal) (planningHorizon goal) (initialState portfolio);
     Some \<lparr>startAge = primaryAge goal,
           endAge = planningHorizon goal,
           assumptions = assm,
           years = years_acc st,
           totalTaxesPaid = round_js (taxesPaid_acc st),
           totalWithdrawals = round_js (withdrawals_acc st),
           finalPortfolioValue =
             round_js (traditionalBalance st + taxableBalance st + rothBalance st),
           isSustainable = (depletionAge_acc st = None),
           depletionAge = depletionAge_acc st\<rparr>
   }"

section \<open>Auxiliary definitions used in the statements and proofs\<close>

definition ult_divisor :: "int \<Rightarrow> real option" where
  \<comment> \<open>The specification's divisor: the Uniform Lifetime Table entry of the age, with
      ages beyond the table's maximum 120 clamped to the entry of 120.\<close>
  "ult_divisor a = map_of UNIFORM_LIFETIME_TABLE (min a 120)"

definition ss_thresholds :: "FilingStatus \<Rightarrow> SSThresholds" where
  \<comment> \<open>The threshold row \<open>calculateSocialSecurityTaxable\<close> selects.\<close>
  "ss_thresholds fs =
     (if fs = mfj then SS_TAXATION_THRESHOLDS_mfj else SS_TAXATION_THRESHOLDS_single)"

definition ss_unrounded :: "real \<Rightarrow> real \<Rightarrow> real \<Rightarrow> real \<Rightarrow> real" where
  \<comment> \<open>The local \<open>taxableAmount\<close> of \<open>calculateSocialSecurityTaxable\<close> before
      \<open>Math.round\<close>, as a function of the benefit, the provisional income and the two
      thresholds.\<close>
  "ss_unrounded B p z f =
     (if p \<le> z then 0
      else if p \<le> f then min (B * 0.5) ((p - z) * 0.5)
      else min (B * 0.85) (min (B * 0.5) ((f - z) * 0.5) + (p - f) * 0.85))"

definition stacked_tax :: "real \<Rightarrow> real \<Rightarrow> real \<Rightarrow> real \<Rightarrow> real \<Rightarrow> real \<Rightarrow> real" where
  \<comment> \<open>Closed form of the capital-gains tax for a three-bracket table with thresholds
      \<open>a < b\<close> and rates \<open>0\<close>, \<open>r1\<close>, \<open>r2\<close>: the gains occupy the interval from \<open>inc\<close> to
      \<open>inc + G\<close> of the income scale.\<close>
  "stacked_tax a b r1 r2 G inc =
     r1 * (min (max (inc + G) a) b - min (max inc a) b) + r2 * (max (inc + G) b - max inc b)"

definition nonneg_strategy :: "WithdrawalStrategy \<Rightarrow> bool" where
  \<comment> \<open>Every numeric field of a strategy is non-negative.\<close>
  "nonneg_strategy s =
     (0 \<le> traditionalWithdrawal s \<and> 0 \<le> taxableWithdrawal s \<and> 0 \<le> rothWithdrawal s \<and>
      0 \<le> socialSecurityIncome s \<and> 0 \<le> pensionIncome s \<and> 0 \<le> rmdAmount s)"

definition nonneg_portfolio :: "Portfolio \<Rightarrow> bool" where
  \<comment> \<open>Every balance and every benefit of the accounts present is non-negative.\<close>
  "nonneg_portfolio p =
     ((case taxable p of None \<Rightarrow> True | Some a \<Rightarrow> 0 \<le> balance_taxable a) \<and>
      (case traditional p of None \<Rightarrow> True | Some a \<Rightarrow> 0 \<le> balance_traditional a) \<and>
      (case roth p of None \<Rightarrow> True | Some a \<Rightarrow> 0 \<le> balance_roth a) \<and>
      (case socialSecurity p of None \<Rightarrow> True | Some a \<Rightarrow> 0 \<le> annualBenefit_ss a) \<and>
      (case pension p of None \<Rightarrow> True | Some a \<Rightarrow> 0 \<le> annualBenefit_pension a))"

definition balanceAtStart ::
    "IncomeGoal \<Rightarrow> ProjectionAssumptions \<Rightarrow> WithdrawalStrategy option \<Rightarrow> TaxBreakdown option \<Rightarrow>
     real \<Rightarrow> int \<Rightarrow> int \<Rightarrow> ProjectionState \<Rightarrow> int \<Rightarrow> real option" where
  \<comment> \<open>The value of \<open>totalBalance\<close> at the top of the loop body for age \<open>k\<close>, when the
      loop starts at age \<open>a0\<close> in state \<open>st0\<close>: the state after the passes for the ages
      \<open>a0\<close> to \<open>k - 1\<close>.\<close>
  "balanceAtStart goal assm s0 b0 pc cy a0 st0 k =
     map_option totalBalance (projection_loop goal assm s0 b0 pc cy a0 (k - 1) st0)"

definition beginningBalance ::
    "Portfolio \<Rightarrow> IncomeGoal \<Rightarrow> ProjectionAssumptions \<Rightarrow> WithdrawalStrategy option \<Rightarrow>
     TaxBreakdown option \<Rightarrow> int \<Rightarrow> int \<Rightarrow> real option" where
  \<comment> \<open>The beginning-of-year total of the running balances at age \<open>k\<close> in the loop of
      \<open>generateRetirementProjection\<close>.\<close>
  "beginningBalance p g assm s0 b0 cy k =
     balanceAtStart g assm s0 b0 (pensionCola_of p) cy (primaryAge g) (initialState p) k"

text \<open>Concrete inputs at which the theorems below are instantiated.\<close>

definition example_goal :: IncomeGoal where
  "example_goal =
     \<lparr>targetType = gross, amount_goal = 50000, filingStatus = single, primaryAge = 73,
      spouseAge = None, useItemizedDeductions = False, itemizedAmount = None,
      stateTaxMethod = none, stateTaxRate = None, stateTaxFixedAmount = None,
      planningHorizon = 76\<rparr>"

definition zero_strategy :: WithdrawalStrategy where
  "zero_strategy =
     \<lparr>traditionalWithdrawal = 0, taxableWithdrawal = 0, rothWithdrawal = 0,
      socialSecurityIncome = 0, pensionIncome = 0, rmdAmount = 0,
      isSystemGenerated = False\<rparr>"

definition empty_taxable_portfolio :: Portfolio where
  "empty_taxable_portfolio =
     \<lparr>taxable = Some \<lparr>balance_taxable = 0, costBasis = 0, unrealizedGains = 0\<rparr>,
      traditional = None, roth = None, socialSecurity = None, pension = None\<rparr>"

definition scenario_portfolio :: Portfolio where
  "scenario_portfolio =
     \<lparr>taxable = None,
      traditional = Some \<lparr>balance_traditional = 500000, priorYearEndBalance = Some 500000\<rparr>,
      roth = None, socialSecurity = None, pension = None\<rparr>"

definition full_portfolio :: Portfolio where
  "full_portfolio =
     \<lparr>taxable = Some \<lparr>balance_taxable = 200000, costBasis = 120000, unrealizedGains = 80000\<rparr>,
      traditional = Some \<lparr>balance_traditional = 500000, priorYearEndBalance = None\<rparr>,
      roth = Some \<lparr>balance_roth = 100000\<rparr>,
      socialSecurity = Some \<lparr>annualBenefit_ss = 30000\<rparr>,
      pension = Some \<lparr>annualBenefit_pension = 12000, cola = 0.02\<rparr>\<rparr>"

definition zero_growth :: ProjectionAssumptions where
  "zero_growth = \<lparr>growthRate = 0, inflationRate = 0, socialSecurityCOLA = 0\<rparr>"

section \<open>Rounding\<close>

lemma round_js_mono: "x \<le> y \<Longrightarrow> round_js x \<le> round_js y"
  by (simp add: round_js_def floor_mono)

lemma round_js_nonneg: "0 \<le> x \<Longrightarrow> 0 \<le> round_js x"
  by (simp add: round_js_def)

lemma round_js_0 [simp]: "round_js 0 = 0"
  by (simp add: round_js_def)

section \<open>The RMD calculator\<close>

lemma table_keys: "fst ` set UNIFORM_LIFETIME_TABLE = {72..120}"
  unfolding UNIFORM_LIFETIME_TABLE_def
  by (simp add: set_upto[symmetric] del: set_upto)

lemma table_pos: "(k, d) \<in> set UNIFORM_LIFETIME_TABLE \<Longrightarrow> 0 < d"
  unfolding UNIFORM_LIFETIME_TABLE_def by auto

lemma getDistributionPeriod_clamped:
  assumes "73 \<le> a"
  shows "getDistributionPeriod a = ult_divisor a"
proof (cases "a \<le> 120")
  case True
  then have "a \<in> fst ` set UNIFORM_LIFETIME_TABLE" using assms by (simp add: table_keys)
  then obtain d where "map_of UNIFORM_LIFETIME_TABLE a = Some d"
    by (metis map_of_eq_None_iff not_Some_eq)
  with True assms show ?thesis
    by (simp add: getDistributionPeriod_def ult_divisor_def RMD_START_AGE_def min_def)
next
  case False
  then have "a \<notin> fst ` set UNIFORM_LIFETIME_TABLE" by (simp add: table_keys)
  then have "map_of UNIFORM_LIFETIME_TABLE a = None" by (simp add: map_of_eq_None_iff)
  with False assms show ?thesis
    by (simp add: getDistributionPeriod_def ult_divisor_def RMD_START_AGE_def min_def)
qed

lemma ult_divisor_pos:
  assumes "72 \<le> a"
  shows "\<exists>d. ult_divisor a = Some d \<and> 0 < d"
proof -
  have "min a 120 \<in> fst ` set UNIFORM_LIFETIME_TABLE" using assms by (simp add: table_keys)
  then obtain d where d: "map_of UNIFORM_LIFETIME_TABLE (min a 120) = Some d"
    by (metis map_of_eq_None_iff not_Some_eq)
  then have "0 < d" using table_pos map_of_SomeD by fast
  with d show ?thesis by (simp add: ult_divisor_def)
qed



section \<open>Social Security taxability\<close>

lemma ss_total: "\<exists>r. calculateSocialSecurityTaxable B oi ti fs = Some r"
  by (simp add: calculateSocialSecurityTaxable_def Let_def div_js_def)

lemma ss_amount:
  assumes "0 < B" and "calculateSocialSecurityTaxable B oi ti fs = Some r"
  shows "taxableAmount r =
         round_js (ss_unrounded B (oi + ti + B * 0.5)
           (zeroThreshold (ss_thresholds fs)) (fiftyThreshold (ss_thresholds fs)))"
  using assms
  by (auto simp: calculateSocialSecurityTaxable_def Let_def div_js_def ss_unrounded_def
        ss_thresholds_def split: if_splits)

lemma ss_unrounded_mono:
  assumes "0 < B" "p1 \<le> p2" "z \<le> f"
  shows "ss_unrounded B p1 z f \<le> ss_unrounded B p2 z f"
  using assms by (auto simp: ss_unrounded_def min_def field_simps)

lemma ss_unrounded_bound:
  assumes "0 < B" "z \<le> f"
  shows "ss_unrounded B p z f \<le> 0.85 * B"
  using assms by (auto simp: ss_unrounded_def min_def field_simps)

lemma ss_thresholds_ordered:
  "zeroThreshold (ss_thresholds fs) \<le> fiftyThreshold (ss_thresholds fs)"
  by (simp add: ss_thresholds_def SS_TAXATION_THRESHOLDS_mfj_def
        SS_TAXATION_THRESHOLDS_single_def)

lemma ss_mono:
  assumes "0 < B" "o1 \<le> o2"
    and "calculateSocialSecurityTaxable B o1 ti fs = Some r1"
    and "calculateSocialSecurityTaxable B o2 ti fs = Some r2"
  shows "taxableAmount r1 \<le> taxableAmount r2"
proof -
  from assms(2) have "o1 + ti + B * 0.5 \<le> o2 + ti + B * 0.5" by simp
  then show ?thesis
    unfolding ss_amount[OF assms(1,3)] ss_amount[OF assms(1,4)]
    by (intro round_js_mono ss_unrounded_mono assms(1) ss_thresholds_ordered)
qed

lemma ss_bound:
  assumes "0 < B" and "calculateSocialSecurityTaxable B oi ti fs = Some r"
  shows "taxableAmount r \<le> round_js (0.85 * B)"
  unfolding ss_amount[OF assms]
  by (intro round_js_mono ss_unrounded_bound assms(1) ss_thresholds_ordered)

text \<open>
  Claim C4, as stated, asks for \<open>taxableAmount \<le> 0.85 * B\<close>. The returned amount is
  rounded to whole dollars, so the bound fails whenever \<open>0.85 * B\<close> has a fractional part
  of a half or more: a benefit of 10 with other income 100000 gives 9, above 8.5.
\<close>

theorem ss_bound_counterexample:
  "(0::real) < 10 \<and>
   calculateSocialSecurityTaxable 10 100000 0 single =
     Some \<lparr>taxableAmount = 9, taxablePercent = 85, provisionalIncome = 100005\<rparr> \<and>
   \<not> (9 \<le> 0.85 * (10::real))"
  by (simp add: calculateSocialSecurityTaxable_def Let_def div_js_def round_js_def
        SS_TAXATION_THRESHOLDS_single_def)

text \<open>
  Claim C4, amended. For a fixed benefit \<open>B > 0\<close>, tax-exempt interest and filing
  status, the returned \<open>taxableAmount\<close> is non-decreasing in \<open>otherIncome\<close> and is at
  most \<open>0.85 * B\<close> rounded to the nearest dollar.
\<close>

theorem ss_taxable_monotone_and_bounded:
  assumes "0 < B" and "o1 \<le> o2"
  shows "\<exists>r1 r2. calculateSocialSecurityTaxable B o1 ti fs = Some r1 \<and>
                 calculateSocialSecurityTaxable B o2 ti fs = Some r2 \<and>
                 taxableAmount r1 \<le> taxableAmount r2 \<and>
                 taxableAmount r2 \<le> round_js (0.85 * B)"
proof -
  obtain r1 where r1: "calculateSocialSecurityTaxable B o1 ti fs = Some r1"
    using ss_total by blast
  obtain r2 where r2: "calculateSocialSecurityTaxable B o2 ti fs = Some r2"
    using ss_total by blast
  from assms r1 r2 show ?thesis
    using ss_mono[of B o1 o2 ti fs r1 r2] ss_bound[of B o2 ti fs r2] by simp
qed

theorem ss_taxable_monotone_and_bounded_witness:
  "(0::real) < 10 \<and> (20000::real) \<le> 100000 \<and>
   (\<exists>r1 r2. calculateSocialSecurityTaxable 10 20000 0 single = Some r1 \<and>
            calculateSocialSecurityTaxable 10 100000 0 single = Some r2 \<and>
            taxableAmount r1 \<le> taxableAmount r2 \<and> taxableAmount r2 \<le> 9)"
  using ss_taxable_monotone_and_bounded[of 10 20000 100000 0 single]
  by (simp add: round_js_def)

text \<open>
  Claim C5, as stated, asks for a positive \<open>taxableAmount\<close> at a provisional income of
  25001 for every benefit \<open>B > 0\<close>. The amount before rounding is
  \<open>min (0.5 * B) 0.5\<close>, which rounds to 0 when \<open>B < 1\<close>: a benefit of 0.50 with other
  income 25000.75 has provisional income 25001 and a taxable amount of 0.
\<close>

theorem ss_zero_threshold_counterexample:
  "(0::real) < 1 / 2 \<and> 25000.75 + 0 + 0.5 * (1 / 2) = (25001::real) \<and>
   calculateSocialSecurityTaxable (1 / 2) 25000.75 0 single =
     Some \<lparr>taxableAmount = 0, taxablePercent = 50, provisionalIncome = 25001\<rparr>"
  by (simp add: calculateSocialSecurityTaxable_def Let_def div_js_def round_js_def
        SS_TAXATION_THRESHOLDS_single_def)

text \<open>
  Claim C5, amended. For a single filer with benefit \<open>B > 0\<close>: at a provisional income
  of exactly 25000 the taxable amount is 0; at 25001 it is positive (it is 1)
  whenever \<open>B \<ge> 1\<close>, and it is 0 when \<open>B < 1\<close>.
\<close>

theorem ss_zero_threshold_boundary:
  assumes "0 < B"
  shows "(oi + ti + 0.5 * B = 25000 \<longrightarrow>
           (\<exists>r. calculateSocialSecurityTaxable B oi ti single = Some r \<and> taxableAmount r = 0)) \<and>
         (oi + ti + 0.5 * B = 25001 \<and> 1 \<le> B \<longrightarrow>
           (\<exists>r. calculateSocialSecurityTaxable B oi ti single = Some r \<and> taxableAmount r = 1)) \<and>
         (oi + ti + 0.5 * B = 25001 \<and> B < 1 \<longrightarrow>
           (\<exists>r. calculateSocialSecurityTaxable B oi ti single = Some r \<and> taxableAmount r = 0))"
  using assms
  by (auto simp: calculateSocialSecurityTaxable_def Let_def div_js_def round_js_def
        SS_TAXATION_THRESHOLDS_single_def min_def floor_eq_iff)

theorem ss_zero_threshold_boundary_witness:
  "(0::real) < 20000 \<and> 15000 + 0 + 0.5 * 20000 = (25000::real) \<and>
   15001 + 0 + 0.5 * 20000 = (25001::real) \<and> (1::real) \<le> 20000 \<and>
   (\<exists>r. calculateSocialSecurityTaxable 20000 15000 0 single = Some r \<and> taxableAmount r = 0) \<and>
   (\<exists>r. calculateSocialSecurityTaxable 20000 15001 0 single = Some r \<and> taxableAmount r = 1)"
  using ss_zero_threshold_boundary[of 20000 15000 0] ss_zero_threshold_boundary[of 20000 15001 0]
  by simp

text \<open>
  Claim C9. With \<open>ssBenefits \<le> 0\<close> the function short-circuits: taxable amount,
  taxable percent and provisional income are all reported as 0, whatever the other
  income and the tax-exempt interest are.
\<close>

theorem ss_no_benefit_short_circuit:
  "B \<le> 0 \<Longrightarrow> calculateSocialSecurityTaxable B oi ti fs =
     Some \<lparr>taxableAmount = 0, taxablePercent = 0, provisionalIncome = 0\<rparr>"
  by (simp add: calculateSocialSecurityTaxable_def)

theorem ss_no_benefit_short_circuit_witness:
  "(0::real) \<le> 0 \<and> 40000 + 100 + 0.5 * 0 \<noteq> (0::real) \<and>
   calculateSocialSecurityTaxable 0 40000 100 single =
     Some \<lparr>taxableAmount = 0, taxablePercent = 0, provisionalIncome = 0\<rparr>"
  using ss_no_benefit_short_circuit[of 0 40000 100 single] by simp

section \<open>The ordinary-income bracket calculator\<close>

lemma bracketSources_total:
  "tot \<noteq> 0 \<Longrightarrow> \<exists>l. bracketSources_loop srcs tot inB = Some l"
  by (induction srcs) (auto simp: div_js_def Let_def)

lemma ordinary_loop_step:
  assumes "\<not> r \<le> 0"
  shows "\<exists>l. ordinary_loop (b # bs) srcs tot r t fl m =
     ordinary_loop bs srcs tot
       (r - x_min r (x_sub_fin (max_bracket b) (min_bracket b)))
       (t + x_min r (x_sub_fin (max_bracket b) (min_bracket b)) * rate_bracket b)
       (fl @ [\<lparr>rate_fill = rate_bracket b * 100,
                bracketMin = min_bracket b, bracketMax = max_bracket b,
                incomeInBracket = x_min r (x_sub_fin (max_bracket b) (min_bracket b)),
                taxFromBracket =
                  x_min r (x_sub_fin (max_bracket b) (min_bracket b)) * rate_bracket b,
                sources = l\<rparr>])
       (if x_min r (x_sub_fin (max_bracket b) (min_bracket b)) > 0
        then rate_bracket b else m)"
proof (cases "length srcs > 0 \<and> tot > 0")
  case True
  then obtain l where
    "bracketSources_loop srcs tot (x_min r (x_sub_fin (max_bracket b) (min_bracket b))) = Some l"
    using bracketSources_total[of tot srcs] by fastforce
  with True assms show ?thesis by (intro exI[of _ l]) (simp add: Let_def)
next
  case False
  with assms show ?thesis by (intro exI[of _ "[]"]) (auto simp: Let_def)
qed

lemma ordinary_loop_break:
  "r \<le> 0 \<Longrightarrow> ordinary_loop bs srcs tot r t fl m =
     Some \<lparr>tax_ordinary = t, bracketFill_ordinary = fl, marginalRate = m\<rparr>"
  by (cases bs) simp_all

lemma ordinary_loop_tax:
  "\<exists>res. ordinary_loop bs srcs tot r t fl m = Some res \<and>
     sum_list (map taxFromBracket (bracketFill_ordinary res)) - tax_ordinary res =
     sum_list (map taxFromBracket fl) - t"
proof (induction bs arbitrary: r t fl m)
  case Nil
  show ?case by simp
next
  case (Cons b bs)
  show ?case
  proof (cases "r \<le> 0")
    case True
    then show ?thesis by simp
  next
    case False
    from ordinary_loop_step[OF False, of b bs srcs tot t fl m] obtain l where
      step: "ordinary_loop (b # bs) srcs tot r t fl m =
       ordinary_loop bs srcs tot
       (r - x_min r (x_sub_fin (max_bracket b) (min_bracket b)))
       (t + x_min r (x_sub_fin (max_bracket b) (min_bracket b)) * rate_bracket b)
       (fl @ [\<lparr>rate_fill = rate_bracket b * 100,
                bracketMin = min_bracket b, bracketMax = max_bracket b,
                incomeInBracket = x_min r (x_sub_fin (max_bracket b) (min_bracket b)),
                taxFromBracket =
                  x_min r (x_sub_fin (max_bracket b) (min_bracket b)) * rate_bracket b,
                sources = l\<rparr>])
       (if x_min r (x_sub_fin (max_bracket b) (min_bracket b)) > 0
        then rate_bracket b else m)" by blast
    show ?thesis unfolding step
      using Cons.IH[of "r - x_min r (x_sub_fin (max_bracket b) (min_bracket b))"
        "t + x_min r (x_sub_fin (max_bracket b) (min_bracket b)) * rate_bracket b"
        "fl @ [\<lparr>rate_fill = rate_bracket b * 100,
                bracketMin = min_bracket b, bracketMax = max_bracket b,
                incomeInBracket = x_min r (x_sub_fin (max_bracket b) (min_bracket b)),
                taxFromBracket =
                  x_min r (x_sub_fin (max_bracket b) (min_bracket b)) * rate_bracket b,
                sources = l\<rparr>]"
        "if x_min r (x_sub_fin (max_bracket b) (min_bracket b)) > 0
         then rate_bracket b else m"]
      by auto
  qed
qed

lemma x_min_le: "x_min r s \<le> r"
  by (cases s) simp_all

lemma ordinary_loop_income:
  assumes "0 \<le> r" and "\<exists>b \<in> set bs. max_bracket b = Infinity"
    and "ordinary_loop bs srcs tot r t fl m = Some res"
  shows "sum_list (map incomeInBracket (bracketFill_ordinary res)) =
         sum_list (map incomeInBracket fl) + r"
  using assms
proof (induction bs arbitrary: r t fl m)
  case Nil
  then show ?case by simp
next
  case (Cons b bs)
  show ?case
  proof (cases "r \<le> 0")
    case True
    with Cons.prems show ?thesis by auto
  next
    case False
    define inB where "inB = x_min r (x_sub_fin (max_bracket b) (min_bracket b))"
    from ordinary_loop_step[OF False, of b bs srcs tot t fl m] obtain fl' m' where
      step: "ordinary_loop (b # bs) srcs tot r t fl m =
               ordinary_loop bs srcs tot (r - inB) (t + inB * rate_bracket b) fl' m'"
      and fl': "sum_list (map incomeInBracket fl') = sum_list (map incomeInBracket fl) + inB"
      unfolding inB_def by fastforce
    have le: "inB \<le> r" unfolding inB_def by (rule x_min_le)
    show ?thesis
    proof (cases "max_bracket b = Infinity")
      case True
      then have "inB = r" by (simp add: inB_def)
      with Cons.prems(3) fl' show ?thesis
        unfolding step by (auto simp: ordinary_loop_break)
    next
      case False
      with Cons.prems(2) have ex: "\<exists>b \<in> set bs. max_bracket b = Infinity" by auto
      from Cons.prems(3) have
        "ordinary_loop bs srcs tot (r - inB) (t + inB * rate_bracket b) fl' m' = Some res"
        unfolding step .
      from Cons.IH[OF _ ex this] le fl' show ?thesis by simp
    qed
  qed
qed

lemma federal_top_unbounded: "\<exists>b \<in> set (FEDERAL_BRACKETS fs). max_bracket b = Infinity"
  by (cases fs) (simp_all add: FEDERAL_BRACKETS_def)

text \<open>
  Claim C2. For every taxable income \<open>I \<ge> 0\<close>, filing status and list of attributed
  income sources, \<open>calculateOrdinaryIncomeTax\<close> returns a bracket fill whose
  \<open>incomeInBracket\<close> entries sum to \<open>I\<close> (the top bracket of every table is unbounded)
  and whose \<open>taxFromBracket\<close> entries sum to the returned tax.
\<close>

theorem ordinary_bracket_coverage:
  assumes "0 \<le> I"
  shows "\<exists>res. calculateOrdinaryIncomeTax I fs srcs = Some res \<and>
           sum_list (map incomeInBracket (bracketFill_ordinary res)) = I \<and>
           sum_list (map taxFromBracket (bracketFill_ordinary res)) = tax_ordinary res"
proof -
  obtain res where res: "calculateOrdinaryIncomeTax I fs srcs = Some res"
    and tax: "sum_list (map taxFromBracket (bracketFill_ordinary res)) - tax_ordinary res = 0"
    using ordinary_loop_tax[of "FEDERAL_BRACKETS fs" srcs _ "max 0 I" 0 "[]" 0]
    unfolding calculateOrdinaryIncomeTax_def by auto
  from res assms have "sum_list (map incomeInBracket (bracketFill_ordinary res)) = I"
    using ordinary_loop_income[OF _ federal_top_unbounded, of "max 0 I" fs srcs _ 0 "[]" 0 res]
    unfolding calculateOrdinaryIncomeTax_def by simp
  with res tax show ?thesis by simp
qed

theorem ordinary_bracket_coverage_witness:
  "(0::real) \<le> 60000 \<and>
   (\<exists>res. calculateOrdinaryIncomeTax 60000 single [] = Some res \<and>
      sum_list (map incomeInBracket (bracketFill_ordinary res)) = 60000 \<and>
      sum_list (map taxFromBracket (bracketFill_ordinary res)) = tax_ordinary res \<and>
      tax_ordinary res = 7912)"
proof -
  have t: "map_option tax_ordinary (calculateOrdinaryIncomeTax 60000 single []) = Some 7912"
    by (simp add: calculateOrdinaryIncomeTax_def FEDERAL_BRACKETS_def Let_def)
  obtain res where res: "calculateOrdinaryIncomeTax 60000 single [] = Some res"
      "sum_list (map incomeInBracket (bracketFill_ordinary res)) = 60000"
      "sum_list (map taxFromBracket (bracketFill_ordinary res)) = tax_ordinary res"
    using ordinary_bracket_coverage[of 60000 single "[]"] by auto
  from t res(1) have "tax_ordinary res = 7912" by simp
  with res show ?thesis by simp
qed

section \<open>The capital-gains bracket calculator\<close>

lemma capgains_loop_three:
  assumes "0 < a" "a < b" "0 \<le> inc" "0 < G"
  shows "(case capgains_loop
              [\<lparr>min_bracket = 0, max_bracket = Fin a, rate_bracket = 0\<rparr>,
               \<lparr>min_bracket = a, max_bracket = Fin b, rate_bracket = r1\<rparr>,
               \<lparr>min_bracket = b, max_bracket = Infinity, rate_bracket = r2\<rparr>]
              0 G [] (Fin inc) of
            Some (t, bd) \<Rightarrow> t = stacked_tax a b r1 r2 G inc
          | None \<Rightarrow> False)"
  using assms
  by (auto simp: Let_def stacked_tax_def min_def max_def algebra_simps split: if_splits)




lemma capgains_table_shape:
  "\<exists>a b r1 r2. CAPITAL_GAINS_BRACKETS fs =
              [\<lparr>min_bracket = 0, max_bracket = Fin a, rate_bracket = 0\<rparr>,
               \<lparr>min_bracket = a, max_bracket = Fin b, rate_bracket = r1\<rparr>,
               \<lparr>min_bracket = b, max_bracket = Infinity, rate_bracket = r2\<rparr>] \<and>
            0 < a \<and> a < b \<and> 0 \<le> r1 \<and> r1 \<le> r2"
proof (cases fs)
  case single
  show ?thesis unfolding single CAPITAL_GAINS_BRACKETS_def
    by (intro exI[of _ 49450] exI[of _ 545500] exI[of _ "0.15"] exI[of _ "0.20"]) simp
next
  case mfj
  show ?thesis unfolding mfj CAPITAL_GAINS_BRACKETS_def
    by (intro exI[of _ 98900] exI[of _ 613700] exI[of _ "0.15"] exI[of _ "0.20"]) simp
next
  case mfs
  show ?thesis unfolding mfs CAPITAL_GAINS_BRACKETS_def
    by (intro exI[of _ 49450] exI[of _ 306850] exI[of _ "0.15"] exI[of _ "0.20"]) simp
next
  case hoh
  show ?thesis unfolding hoh CAPITAL_GAINS_BRACKETS_def
    by (intro exI[of _ 66200] exI[of _ 579600] exI[of _ "0.15"] exI[of _ "0.20"]) simp
qed

lemma capgains_tax_closed:
  assumes "0 \<le> inc" "0 < G"
  shows "\<exists>res a b r1 r2. calculateCapitalGainsTax G inc fs = Some res \<and>
           a < b \<and> 0 \<le> r1 \<and> r1 \<le> r2 \<and>
           CAPITAL_GAINS_BRACKETS fs =
              [\<lparr>min_bracket = 0, max_bracket = Fin a, rate_bracket = 0\<rparr>,
               \<lparr>min_bracket = a, max_bracket = Fin b, rate_bracket = r1\<rparr>,
               \<lparr>min_bracket = b, max_bracket = Infinity, rate_bracket = r2\<rparr>] \<and>
           tax_capgains res = stacked_tax a b r1 r2 G inc"
proof -
  obtain a b r1 r2 where t: "CAPITAL_GAINS_BRACKETS fs =
              [\<lparr>min_bracket = 0, max_bracket = Fin a, rate_bracket = 0\<rparr>,
               \<lparr>min_bracket = a, max_bracket = Fin b, rate_bracket = r1\<rparr>,
               \<lparr>min_bracket = b, max_bracket = Infinity, rate_bracket = r2\<rparr>]"
      and w: "0 < a" "a < b" "0 \<le> r1" "r1 \<le> r2"
    using capgains_table_shape[of fs] by blast
  from capgains_loop_three[OF w(1,2) assms, of r1 r2] obtain bd where
    "capgains_loop (CAPITAL_GAINS_BRACKETS fs) 0 G [] (Fin inc) =
       Some (stacked_tax a b r1 r2 G inc, bd)"
    unfolding t by (auto split: option.splits)
  with assms(2) t w show ?thesis
    by (simp add: calculateCapitalGainsTax_def div_js_def)
qed



section \<open>The tax breakdown orchestrator\<close>

lemma gainsRatio_total: "\<exists>r. gainsRatio t = Some r \<and> (balance_taxable t = 0 \<longrightarrow> r = 0)"
  by (simp add: gainsRatio_def div_js_def)

lemma guarded_div:
  "\<exists>q. (if 0 < d then div_js n d else Some 0) = Some q \<and> (d \<le> 0 \<longrightarrow> q = 0)"
  by (simp add: div_js_def)

lemma ordinary_total: "\<exists>res. calculateOrdinaryIncomeTax I fs srcs = Some res"
  using ordinary_loop_tax unfolding calculateOrdinaryIncomeTax_def by blast

lemma capgains_total:
  assumes "0 \<le> inc"
  shows "\<exists>res. calculateCapitalGainsTax G inc fs = Some res"
proof (cases "G \<le> 0")
  case True
  then show ?thesis by (simp add: calculateCapitalGainsTax_def)
next
  case False
  with capgains_tax_closed[OF assms, of G fs] show ?thesis by auto
qed

lemma getCapitalGainsRate_total: "\<exists>r. getCapitalGainsRate x fs = Some r"
  by (cases fs) (simp_all add: getCapitalGainsRate_def CAPITAL_GAINS_BRACKETS_def)

lemma ltcg_total:
  "\<exists>l. (case taxable p of
          None \<Rightarrow> Some 0
        | Some t \<Rightarrow> if w > 0 then gainsRatio t \<bind> (\<lambda>r. Some (w * r)) else Some 0) = Some l \<and>
       (\<forall>t. taxable p = Some t \<and> balance_taxable t = 0 \<longrightarrow> l = 0)"
proof (cases "taxable p")
  case None
  then show ?thesis by simp
next
  case (Some t)
  with gainsRatio_total[of t] show ?thesis by auto
qed

lemma calculateTaxBreakdown_shape:
  "\<exists>b. calculateTaxBreakdown s p g = Some b \<and>
       (grossIncome b \<le> 0 \<longrightarrow> effectiveRate b = 0) \<and>
       (adjustedGrossIncome b \<le> 0 \<longrightarrow> effectiveRateOnAGI b = 0) \<and>
       (taxableIncome b \<le> 0 \<longrightarrow> effectiveRateOnTaxable b = 0) \<and>
       (\<forall>t. taxable p = Some t \<and> balance_taxable t = 0 \<longrightarrow> longTermCapitalGains b = 0)"
proof -
  define fs where "fs = filingStatus g"
  define trad where "trad = traditionalWithdrawal s"
  define pens where "pens = pensionIncome s"
  obtain l where l: "(case taxable p of
          None \<Rightarrow> Some 0
        | Some t \<Rightarrow> if taxableWithdrawal s > 0
            then gainsRatio t \<bind> (\<lambda>r. Some (taxableWithdrawal s * r)) else Some 0) = Some l"
    and l0: "\<forall>t. taxable p = Some t \<and> balance_taxable t = 0 \<longrightarrow> l = 0"
    using ltcg_total by blast
  obtain ss where ss: "calculateSocialSecurityTaxable (socialSecurityIncome s)
      (trad + pens + l) 0 fs = Some ss"
    using ss_total by blast
  define ded where "ded = calculateDeduction fs (useItemizedDeductions g) (itemizedAmount g)"
  define toi where "toi = max 0 (trad + pens + taxableAmount ss - amount_deduction ded)"
  obtain ord where ord: "calculateOrdinaryIncomeTax toi fs
      (ordinarySources trad pens (taxableAmount ss)) = Some ord"
    using ordinary_total by blast
  have "0 \<le> toi" by (simp add: toi_def)
  then obtain cg where cg: "calculateCapitalGainsTax l toi fs = Some cg"
    using capgains_total by blast
  define stTax where "stTax =
           (if stateTaxMethod g = rate \<and> truthy_num (stateTaxRate g) then
              (case stateTaxRate g of
                 Some r \<Rightarrow> (toi + l) * r | None \<Rightarrow> 0)
            else if stateTaxMethod g = fixed \<and> truthy_num (stateTaxFixedAmount g) then
              (case stateTaxFixedAmount g of Some a \<Rightarrow> a | None \<Rightarrow> 0)
            else 0)"
  define tot where "tot = tax_ordinary ord + tax_capgains cg + stTax"
  define grossInc where "grossInc = trad + taxableWithdrawal s + rothWithdrawal s +
      socialSecurityIncome s + pens"
  define agi where "agi = trad + pens + l + taxableAmount ss"
  obtain e1 where e1: "(if 0 < grossInc then div_js tot grossInc else Some 0) = Some e1"
    and e1z: "grossInc \<le> 0 \<longrightarrow> e1 = 0" using guarded_div by blast
  obtain e2 where e2: "(if 0 < agi then div_js tot agi else Some 0) = Some e2"
    and e2z: "agi \<le> 0 \<longrightarrow> e2 = 0" using guarded_div by blast
  obtain e3 where e3: "(if 0 < toi + l then div_js tot (toi + l) else Some 0) = Some e3"
    and e3z: "toi + l \<le> 0 \<longrightarrow> e3 = 0" using guarded_div by blast
  obtain mcg where mcg: "getCapitalGainsRate (toi + l) fs = Some mcg"
    using getCapitalGainsRate_total by blast
  have "\<exists>b. calculateTaxBreakdown s p g = Some b \<and> grossIncome b = grossInc \<and>
      adjustedGrossIncome b = agi \<and> taxableIncome b = toi + l \<and> effectiveRate b = e1 \<and>
      effectiveRateOnAGI b = e2 \<and> effectiveRateOnTaxable b = e3 \<and>
      longTermCapitalGains b = l"
    unfolding calculateTaxBreakdown_def Let_def
    using l ss ord cg e1 e2 e3 mcg
    unfolding fs_def trad_def pens_def ded_def toi_def stTax_def tot_def grossInc_def agi_def
    by (simp del: split_paired_Ex)
  with e1z e2z e3z l0 show ?thesis by fastforce
qed

lemma calculateTaxBreakdown_total: "\<exists>b. calculateTaxBreakdown s p g = Some b"
  using calculateTaxBreakdown_shape by blast

text \<open>
  Claim C7. \<open>calculateTaxBreakdown\<close> never divides by zero: it returns a breakdown for
  every strategy, portfolio and goal (in this model a quotient with denominator zero
  would make the result \<open>None\<close>), and in that breakdown \<open>effectiveRate\<close> is 0 when the
  gross income is 0, \<open>effectiveRateOnAGI\<close> is 0 when the adjusted gross income is 0,
  \<open>effectiveRateOnTaxable\<close> is 0 when the taxable income (taxable ordinary income plus
  gains) is 0, and with a taxable account of balance 0 the gains ratio is 0 (and so
  are the capital gains).
\<close>

theorem tax_breakdown_ratios_defined:
  "\<exists>b. calculateTaxBreakdown s p g = Some b \<and>
       (grossIncome b = 0 \<longrightarrow> effectiveRate b = 0) \<and>
       (adjustedGrossIncome b = 0 \<longrightarrow> effectiveRateOnAGI b = 0) \<and>
       (taxableIncome b = 0 \<longrightarrow> effectiveRateOnTaxable b = 0) \<and>
       (\<forall>t. taxable p = Some t \<and> balance_taxable t = 0 \<longrightarrow>
            gainsRatio t = Some 0 \<and> longTermCapitalGains b = 0)"
proof -
  obtain b where b: "calculateTaxBreakdown s p g = Some b"
    "grossIncome b \<le> 0 \<longrightarrow> effectiveRate b = 0"
    "adjustedGrossIncome b \<le> 0 \<longrightarrow> effectiveRateOnAGI b = 0"
    "taxableIncome b \<le> 0 \<longrightarrow> effectiveRateOnTaxable b = 0"
    "\<forall>t. taxable p = Some t \<and> balance_taxable t = 0 \<longrightarrow> longTermCapitalGains b = 0"
    using calculateTaxBreakdown_shape[of s p g] by blast
  have "gainsRatio t = Some 0" if "balance_taxable t = 0" for t
    using that by (simp add: gainsRatio_def)
  with b show ?thesis by auto
qed

theorem tax_breakdown_ratios_defined_witness:
  "\<exists>b. calculateTaxBreakdown zero_strategy empty_taxable_portfolio example_goal = Some b \<and>
       grossIncome b = 0 \<and> effectiveRate b = 0 \<and>
       adjustedGrossIncome b = 0 \<and> effectiveRateOnAGI b = 0 \<and>
       taxableIncome b = 0 \<and> effectiveRateOnTaxable b = 0 \<and>
       taxable empty_taxable_portfolio =
         Some \<lparr>balance_taxable = 0, costBasis = 0, unrealizedGains = 0\<rparr> \<and>
       gainsRatio \<lparr>balance_taxable = 0, costBasis = 0, unrealizedGains = 0\<rparr> = Some 0 \<and>
       longTermCapitalGains b = 0"
proof -
  have ev: "map_option (\<lambda>b. (grossIncome b, adjustedGrossIncome b, taxableIncome b))
      (calculateTaxBreakdown zero_strategy empty_taxable_portfolio example_goal) = Some (0, 0, 0)"
    by code_simp
  have t: "taxable empty_taxable_portfolio =
      Some \<lparr>balance_taxable = 0, costBasis = 0, unrealizedGains = 0\<rparr>"
    by (simp add: empty_taxable_portfolio_def)
  from tax_breakdown_ratios_defined[of zero_strategy empty_taxable_portfolio example_goal] ev t
  show ?thesis by auto
qed

section \<open>The strategy generator\<close>

lemma calculateRMD_total: "\<exists>r. calculateRMD a B = Some r \<and> 0 \<le> amount_rmd r"
proof (cases "a < 73 \<or> B \<le> 0")
  case True
  then show ?thesis by (auto simp: calculateRMD_def RMD_START_AGE_def)
next
  case False
  then have a: "73 \<le> a" "0 < B" by simp_all
  then obtain d where d: "ult_divisor a = Some d" "0 < d"
    using ult_divisor_pos[of a] by auto
  with a have "getDistributionPeriod a = Some d"
    by (simp add: getDistributionPeriod_clamped)
  with a d show ?thesis
    by (simp add: calculateRMD_def RMD_START_AGE_def div_js_def round_js_nonneg)
qed

lemma getCurrentSSTaxable_total: "\<exists>c. getCurrentSSTaxable ssA penA fs t cgn = Some c"
  using ss_total[of ssA "t + cgn + penA" 0 fs] by (auto simp: getCurrentSSTaxable_def)

lemma x_div_pos: "0 < d \<Longrightarrow> x_lt (Fin 0) x \<Longrightarrow> \<exists>e. x_div x d = Some e \<and> x_lt (Fin 0) e"
  by (cases x) auto

lemma x_min_nonneg: "0 \<le> a \<Longrightarrow> x_lt (Fin 0) e \<Longrightarrow> 0 \<le> x_min a e"
  by (cases e) auto

lemma fillLowBrackets_loop_props:
  "\<exists>t r. fillLowBrackets_loop bs ssA penA fs ded avail trad rem = Some (t, r) \<and> trad \<le> t"
proof (induction bs arbitrary: trad rem)
  case Nil
  show ?case by simp
next
  case (Cons b bs)
  show ?case
  proof (cases "rem \<le> 0 \<or> trad \<ge> avail")
    case True
    then show ?thesis by auto
  next
    case False
    obtain c where c: "getCurrentSSTaxable ssA penA fs trad 0 = Some c"
      using getCurrentSSTaxable_total by blast
    define room where "room = x_max 0 (x_sub_fin (max_low b) (max 0 (trad + c - ded)))"
    show ?thesis
    proof (cases "x_lt (Fin 0) room")
      case True
      have "0 < (if c > 0 then 1.85 else 1.5 :: real)" by simp
      from x_div_pos[OF this True] obtain e where
        e: "x_div room (if c > 0 then 1.85 else 1.5) = Some e" "x_lt (Fin 0) e" by blast
      define ad where "ad = x_min (min rem (avail - trad)) e"
      from False e(2) have ad: "0 \<le> ad" unfolding ad_def by (intro x_min_nonneg) simp_all
      have step: "fillLowBrackets_loop (b # bs) ssA penA fs ded avail trad rem =
          fillLowBrackets_loop bs ssA penA fs ded avail (trad + ad) (rem - ad)"
        using False True c e(1) by (simp add: room_def ad_def Let_def)
      from Cons.IH[of "trad + ad" "rem - ad"] ad show ?thesis unfolding step by auto
    next
      case nroom: False
      have step: "fillLowBrackets_loop (b # bs) ssA penA fs ded avail trad rem =
          fillLowBrackets_loop bs ssA penA fs ded avail trad rem"
        using False nroom c by (simp add: room_def Let_def)
      from Cons.IH[of trad rem] show ?thesis unfolding step by auto
    qed
  qed
qed

lemma harvestZeroGains_props:
  assumes "avail = (case taxable p of Some a \<Rightarrow> balance_taxable a | None \<Rightarrow> 0)"
  shows "\<exists>tx r. harvestZeroGains p fs ded avail trad fss rem = Some (tx, r) \<and> 0 \<le> tx"
proof (cases "rem > 0 \<and> avail > 0")
  case False
  then show ?thesis by (auto simp: harvestZeroGains_def)
next
  case True
  with assms obtain t where t: "taxable p = Some t" "balance_taxable t = avail"
    by (cases "taxable p") auto
  obtain a b r1 r2 where tab: "CAPITAL_GAINS_BRACKETS fs =
              [\<lparr>min_bracket = 0, max_bracket = Fin a, rate_bracket = 0\<rparr>,
               \<lparr>min_bracket = a, max_bracket = Fin b, rate_bracket = r1\<rparr>,
               \<lparr>min_bracket = b, max_bracket = Infinity, rate_bracket = r2\<rparr>]"
      and w: "0 < a"
    using capgains_table_shape[of fs] by blast
  show ?thesis
  proof (cases "trad + fss - ded < a")
    case False
    with True tab show ?thesis by (simp add: harvestZeroGains_def)
  next
    case cur: True
    then have room: "0 < a - max 0 (trad + fss - ded)" using w by simp
    define ratio where "ratio = (balance_taxable t - costBasis t) / balance_taxable t"
    have ratio: "div_js (balance_taxable t - costBasis t) (balance_taxable t) = Some ratio"
      using True t by (simp add: div_js_def ratio_def)
    define mw where "mw = (if ratio > 0 then (a - max 0 (trad + fss - ded)) / ratio else avail)"
    have mw: "0 < mw" using room True by (simp add: mw_def)
    have "harvestZeroGains p fs ded avail trad fss rem =
        Some (min (min rem avail) mw, rem - min (min rem avail) mw)"
      using True tab cur t ratio
      by (simp add: harvestZeroGains_def Let_def mw_def)
    with mw True show ?thesis by simp
  qed
qed

lemma refine_adjust_props:
  assumes "nonneg_strategy s" "rmdAmount s \<le> traditionalWithdrawal s"
  shows "nonneg_strategy (refine_adjust d s p)"
    and "rmdAmount (refine_adjust d s p) = rmdAmount s"
  using assms
  by (auto simp: refine_adjust_def nonneg_strategy_def Let_def min_def split: option.splits)

lemma refine_adjust_rmd: "rmdAmount (refine_adjust d s p) = rmdAmount s"
  by (auto simp: refine_adjust_def Let_def)

lemma refine_round_props:
  "rmdAmount (refine_round s) = rmdAmount s"
  "rmdAmount s \<le> traditionalWithdrawal (refine_round s)"
  "nonneg_strategy s \<Longrightarrow> nonneg_strategy (refine_round s)"
  by (auto simp: refine_round_def nonneg_strategy_def round_js_nonneg max_def)

lemma refine_loop_props:
  assumes "rmdAmount s \<le> traditionalWithdrawal s"
  shows "\<exists>s'. refine_loop i s b p g = Some s' \<and> rmdAmount s' = rmdAmount s \<and>
           rmdAmount s' \<le> traditionalWithdrawal s' \<and>
           (if nonneg_strategy s then nonneg_strategy s' else True)"
  using assms
proof (induction i s b p g rule: refine_loop.induct)
  case (1 i s b p g)
  show ?case
  proof (cases "i < maxIterations \<and> \<not> \<bar>amount_goal g - afterTaxIncome b\<bar> < 500")
    case False
    with "1.prems" show ?thesis by (subst refine_loop.simps) (auto simp: Let_def)
  next
    case True
    define s' where "s' = refine_round (refine_adjust (amount_goal g - afterTaxIncome b) s p)"
    obtain b' where b': "calculateTaxBreakdown s' p g = Some b'"
      using calculateTaxBreakdown_total by blast
    have step: "refine_loop i s b p g = refine_loop (i + 1) s' b' p g"
      using True b' by (subst refine_loop.simps) (simp add: Let_def s'_def)
    have r: "rmdAmount s' = rmdAmount s" "rmdAmount s' \<le> traditionalWithdrawal s'"
      using refine_round_props(2)[of "refine_adjust (amount_goal g - afterTaxIncome b) s p"]
      by (simp_all add: s'_def refine_round_props(1) refine_adjust_rmd)
    have n: "nonneg_strategy s \<Longrightarrow> nonneg_strategy s'"
      using "1.prems" by (simp add: s'_def refine_round_props refine_adjust_props)
    from "1.IH"[of "amount_goal g - afterTaxIncome b" s' b'] True b' r
    have "\<exists>s''. refine_loop (i + 1) s' b' p g = Some s'' \<and>
        rmdAmount s'' = rmdAmount s' \<and> rmdAmount s'' \<le> traditionalWithdrawal s'' \<and>
        (if nonneg_strategy s' then nonneg_strategy s'' else True)"
      unfolding s'_def by simp
    with r n show ?thesis unfolding step by auto
  qed
qed

lemma refineForAfterTaxTarget_props:
  assumes "rmdAmount s \<le> traditionalWithdrawal s"
  shows "\<exists>s'. refineForAfterTaxTarget s p g = Some s' \<and> rmdAmount s' = rmdAmount s \<and>
           rmdAmount s' \<le> traditionalWithdrawal s' \<and>
           (if nonneg_strategy s then nonneg_strategy s' else True)"
proof -
  obtain b where b: "calculateTaxBreakdown s p g = Some b"
    using calculateTaxBreakdown_total by blast
  from refine_loop_props[OF assms, of 0 b p g] b show ?thesis
    by (simp add: refineForAfterTaxTarget_def)
qed


lemma generateStrategy_shape:
  "\<exists>rmd s0. calculateRMD (primaryAge g) (priorYearBalance_of p) = Some rmd \<and>
      generateStrategy p g =
        (if targetType g = afterTax then refineForAfterTaxTarget s0 p g else Some s0) \<and>
      rmdAmount s0 = amount_rmd rmd \<and> rmdAmount s0 \<le> traditionalWithdrawal s0 \<and>
      (if nonneg_portfolio p then nonneg_strategy s0 else True)"
proof -
  define fs where "fs = filingStatus g"
  define tradAvail where
    "tradAvail = (case traditional p of Some a \<Rightarrow> balance_traditional a | None \<Rightarrow> 0)"
  define taxaAvail where
    "taxaAvail = (case taxable p of Some a \<Rightarrow> balance_taxable a | None \<Rightarrow> 0)"
  define rothAvail where
    "rothAvail = (case roth p of Some a \<Rightarrow> balance_roth a | None \<Rightarrow> 0)"
  define ssA where
    "ssA = (case socialSecurity p of Some a \<Rightarrow> annualBenefit_ss a | None \<Rightarrow> 0)"
  define penA where
    "penA = (case pension p of Some a \<Rightarrow> annualBenefit_pension a | None \<Rightarrow> 0)"
  obtain rmd where rmd: "calculateRMD (primaryAge g) (priorYearBalance_of p) = Some rmd"
    and rmd0: "0 \<le> amount_rmd rmd"
    using calculateRMD_total by blast
  define ded where "ded = amount_deduction
           (calculateDeduction fs (useItemizedDeductions g) (itemizedAmount g))"
  define tg where "tg = (if targetType g = gross then amount_goal g
            else estimateGrossForAfterTax (amount_goal g) fs ded)"
  obtain t1 r1 where fill: "fillLowBrackets_loop (getLowBrackets fs) ssA penA fs ded tradAvail
      (amount_rmd rmd) (tg - ssA - penA - amount_rmd rmd) = Some (t1, r1)"
    and t1: "amount_rmd rmd \<le> t1"
    using fillLowBrackets_loop_props by blast
  obtain fss where fss: "getCurrentSSTaxable ssA penA fs t1 0 = Some fss"
    using getCurrentSSTaxable_total by blast
  obtain tx2 r2 where hz: "harvestZeroGains p fs ded taxaAvail t1 fss r1 = Some (tx2, r2)"
    and tx2: "0 \<le> tx2"
    using harvestZeroGains_props[OF taxaAvail_def] by blast
  define p3 where "p3 = (if r2 > 0 \<and> rothAvail > 0
            then (min r2 rothAvail, r2 - min r2 rothAvail) else (0, r2))"
  define p4 where "p4 = (if snd p3 > 0 \<and> t1 < tradAvail
            then (t1 + min (snd p3) (tradAvail - t1), snd p3 - min (snd p3) (tradAvail - t1))
            else (t1, snd p3))"
  define p5 where "p5 = (if snd p4 > 0 \<and> tx2 < taxaAvail
            then (tx2 + min (snd p4) (taxaAvail - tx2), snd p4 - min (snd p4) (taxaAvail - tx2))
            else (tx2, snd p4))"
  define s0 where "s0 =
           \<lparr>traditionalWithdrawal = max (round_js (fst p4)) (amount_rmd rmd),
            taxableWithdrawal = round_js (fst p5),
            rothWithdrawal = round_js (fst p3),
            socialSecurityIncome = round_js ssA,
            pensionIncome = round_js penA,
            rmdAmount = amount_rmd rmd,
            isSystemGenerated = True\<rparr>"
  have eq: "generateStrategy p g =
        (if targetType g = afterTax then refineForAfterTaxTarget s0 p g else Some s0)"
    unfolding generateStrategy_def Let_def split_beta
    using rmd fill fss hz
    unfolding fs_def tradAvail_def taxaAvail_def rothAvail_def ssA_def penA_def ded_def tg_def
      p3_def p4_def p5_def s0_def
    by (simp split del: if_split cong: if_cong)
  have a: "rmdAmount s0 = amount_rmd rmd" "rmdAmount s0 \<le> traditionalWithdrawal s0"
    by (simp_all add: s0_def)
  have n: "nonneg_strategy s0" if "nonneg_portfolio p"
  proof -
    from that have "0 \<le> ssA" "0 \<le> penA"
      by (auto simp: nonneg_portfolio_def ssA_def penA_def split: option.splits)
    moreover have "0 \<le> fst p3" by (simp add: p3_def)
    moreover have "0 \<le> fst p5" using tx2 by (simp add: p5_def)
    ultimately show ?thesis using rmd0
      by (simp add: nonneg_strategy_def s0_def round_js_nonneg max_def)
  qed
  from rmd eq a n show ?thesis by auto
qed


lemma generateStrategy_props:
  "\<exists>rmd s. calculateRMD (primaryAge g) (priorYearBalance_of p) = Some rmd \<and>
      generateStrategy p g = Some s \<and>
      rmdAmount s = amount_rmd rmd \<and> rmdAmount s \<le> traditionalWithdrawal s \<and>
      (if nonneg_portfolio p then nonneg_strategy s else True)"
proof -
  obtain rmd s0 where s0: "calculateRMD (primaryAge g) (priorYearBalance_of p) = Some rmd"
      "generateStrategy p g =
        (if targetType g = afterTax then refineForAfterTaxTarget s0 p g else Some s0)"
      "rmdAmount s0 = amount_rmd rmd" "rmdAmount s0 \<le> traditionalWithdrawal s0"
      "if nonneg_portfolio p then nonneg_strategy s0 else True"
    using generateStrategy_shape[of g p] by blast
  show ?thesis
  proof (cases "targetType g = afterTax")
    case False
    with s0 show ?thesis by auto
  next
    case True
    from refineForAfterTaxTarget_props[OF s0(4), of p g] obtain s where
      "refineForAfterTaxTarget s0 p g = Some s" "rmdAmount s = rmdAmount s0"
      "rmdAmount s \<le> traditionalWithdrawal s"
      "if nonneg_strategy s0 then nonneg_strategy s else True"
      by blast
    with True s0 show ?thesis by (auto split: if_splits)
  qed
qed

text \<open>
  Claim C1. For every portfolio with a traditional account and every goal with
  \<open>primaryAge \<ge> 73\<close>, of any amount and of either target type, \<open>generateStrategy\<close>
  returns a strategy whose \<open>rmdAmount\<close> is the RMD computed from the prior-year-end
  balance (the current balance when it is not set) and whose \<open>traditionalWithdrawal\<close>
  is at least that amount.
\<close>

theorem strategy_rmd_floor:
  assumes "traditional p = Some t" and "73 \<le> primaryAge g"
  shows "\<exists>s r. generateStrategy p g = Some s \<and>
           calculateRMD (primaryAge g)
             (case priorYearEndBalance t of Some b \<Rightarrow> b | None \<Rightarrow> balance_traditional t) = Some r \<and>
           rmdAmount s = amount_rmd r \<and> amount_rmd r \<le> traditionalWithdrawal s"
  using generateStrategy_props[of g p] assms(1)
  by (auto simp: priorYearBalance_of_def)

theorem strategy_rmd_floor_witness:
  "traditional scenario_portfolio =
     Some \<lparr>balance_traditional = 500000, priorYearEndBalance = Some 500000\<rparr> \<and>
   73 \<le> primaryAge (example_goal\<lparr>targetType := afterTax, amount_goal := 0\<rparr>) \<and>
   (\<exists>s r. generateStrategy scenario_portfolio
             (example_goal\<lparr>targetType := afterTax, amount_goal := 0\<rparr>) = Some s \<and>
          calculateRMD 73 500000 = Some r \<and>
          rmdAmount s = amount_rmd r \<and> amount_rmd r \<le> traditionalWithdrawal s \<and>
          amount_rmd r = 18868 \<and> traditionalWithdrawal s = 18868)"
proof -
  have t: "traditional scenario_portfolio =
     Some \<lparr>balance_traditional = 500000, priorYearEndBalance = Some 500000\<rparr>"
    by (simp add: scenario_portfolio_def)
  have a: "primaryAge (example_goal\<lparr>targetType := afterTax, amount_goal := 0\<rparr>) = 73"
    by (simp add: example_goal_def)
  have r: "map_option amount_rmd (calculateRMD 73 500000) = Some 18868"
    by code_simp
  have s: "map_option traditionalWithdrawal
      (generateStrategy scenario_portfolio
         (example_goal\<lparr>targetType := afterTax, amount_goal := 0\<rparr>)) = Some 18868"
    by code_simp
  from strategy_rmd_floor[OF t, of "example_goal\<lparr>targetType := afterTax, amount_goal := 0\<rparr>"]
    t a r s show ?thesis by auto
qed

text \<open>
  Claim C10. For every portfolio whose balances and benefits are all non-negative and
  every goal, each numeric field of the strategy \<open>generateStrategy\<close> returns is
  non-negative.
\<close>

theorem strategy_fields_nonneg:
  assumes "nonneg_portfolio p"
  shows "\<exists>s. generateStrategy p g = Some s \<and>
           0 \<le> traditionalWithdrawal s \<and> 0 \<le> taxableWithdrawal s \<and>
           0 \<le> rothWithdrawal s \<and> 0 \<le> socialSecurityIncome s \<and>
           0 \<le> pensionIncome s \<and> 0 \<le> rmdAmount s"
  using generateStrategy_props[of g p] assms
  by (auto simp: nonneg_strategy_def)

theorem strategy_fields_nonneg_witness:
  "nonneg_portfolio full_portfolio \<and>
   (\<exists>s. generateStrategy full_portfolio
           (example_goal\<lparr>targetType := afterTax, amount_goal := 90000\<rparr>) = Some s \<and>
        0 \<le> traditionalWithdrawal s \<and> 0 \<le> taxableWithdrawal s \<and>
        0 \<le> rothWithdrawal s \<and> 0 \<le> socialSecurityIncome s \<and>
        0 \<le> pensionIncome s \<and> 0 \<le> rmdAmount s \<and>
        traditionalWithdrawal s = 29548 \<and> taxableWithdrawal s = 8301 \<and>
        rothWithdrawal s = 16884 \<and> socialSecurityIncome s = 30000 \<and>
        pensionIncome s = 12000 \<and> rmdAmount s = 18868)"
proof -
  have n: "nonneg_portfolio full_portfolio"
    by (simp add: nonneg_portfolio_def full_portfolio_def)
  have ev: "map_option
      (\<lambda>s. (traditionalWithdrawal s, taxableWithdrawal s, rothWithdrawal s,
            socialSecurityIncome s, pensionIncome s, rmdAmount s))
      (generateStrategy full_portfolio
         (example_goal\<lparr>targetType := afterTax, amount_goal := 90000\<rparr>)) =
      Some (29548, 8301, 16884, 30000, 12000, 18868)"
    by code_simp
  from strategy_fields_nonneg[OF n, of "example_goal\<lparr>targetType := afterTax, amount_goal := 90000\<rparr>"]
    n ev show ?thesis by auto
qed

section \<open>The projection engine\<close>

lemma generateStrategy_total: "\<exists>s. generateStrategy p g = Some s"
  using generateStrategy_props[of g p] by blast

lemma yearStrategy_total: "\<exists>s b. yearStrategy yp ag first s0 b0 st = Some (s, b)"
proof -
  obtain s where s: "generateStrategy yp ag = Some s" using generateStrategy_total by blast
  obtain b where b: "calculateTaxBreakdown s yp ag = Some b"
    using calculateTaxBreakdown_total by blast
  obtain b' where b': "calculateTaxBreakdown
      \<lparr>traditionalWithdrawal = 0, taxableWithdrawal = 0, rothWithdrawal = 0,
       socialSecurityIncome = socialSecurityBenefit st, pensionIncome = pensionBenefit st,
       rmdAmount = 0, isSystemGenerated = True\<rparr> yp ag = Some b'"
    using calculateTaxBreakdown_total by blast
  from s b b' show ?thesis
    by (auto simp: yearStrategy_def Let_def split: option.splits bool.splits)
qed

lemma basis_total:
  "\<exists>c. (case taxable (yearPortfolio st pc) of
          None \<Rightarrow> Some (taxableCostBasis st)
        | Some t \<Rightarrow>
            if w > 0 then
              div_js w (balance_taxable t) \<bind>
                (\<lambda>withdrawalRatio. Some (max 0 (taxableCostBasis st * (1 - withdrawalRatio))))
            else Some (taxableCostBasis st)) = Some c"
  by (auto simp: yearPortfolio_def div_js_def)

lemma projection_year_props:
  "\<exists>st'. projection_year goal assm s0 b0 pc cy a st = Some st' \<and>
     depletionAge_acc st' =
       (if totalBalance st \<le> 0 \<and> depletionAge_acc st = None then Some a
        else depletionAge_acc st)"
proof -
  obtain s b where sb: "yearStrategy (yearPortfolio st pc) (adjustedGoal goal assm a)
      (a = primaryAge goal) s0 b0 st = Some (s, b)"
    using yearStrategy_total by blast
  obtain c where c: "(case taxable (yearPortfolio st pc) of
          None \<Rightarrow> Some (taxableCostBasis st)
        | Some t \<Rightarrow>
            if taxableWithdrawal s > 0 then
              div_js (taxableWithdrawal s) (balance_taxable t) \<bind>
                (\<lambda>withdrawalRatio. Some (max 0 (taxableCostBasis st * (1 - withdrawalRatio))))
            else Some (taxableCostBasis st)) = Some c"
    using basis_total by blast
  show ?thesis
    unfolding projection_year_def Let_def using sb c
    by (simp split del: if_split cong: if_cong)
qed

lemma projection_loop_done:
  "e < a \<Longrightarrow> projection_loop goal assm s0 b0 pc cy a e st = Some st"
  by (subst projection_loop.simps) simp

lemma projection_loop_step:
  assumes "a \<le> e" and "projection_year goal assm s0 b0 pc cy a st = Some st1"
  shows "projection_loop goal assm s0 b0 pc cy a e st =
         projection_loop goal assm s0 b0 pc cy (a + 1) e st1"
  using assms by (subst projection_loop.simps) simp

lemma projection_loop_total:
  "\<exists>st'. projection_loop goal assm s0 b0 pc cy a e st = Some st'"
proof (induction goal assm s0 b0 pc cy a e st rule: projection_loop.induct)
  case (1 goal assm s0 b0 pc cy a e st)
  show ?case
  proof (cases "a \<le> e")
    case False
    then show ?thesis by (simp add: projection_loop_done)
  next
    case True
    obtain st1 where st1: "projection_year goal assm s0 b0 pc cy a st = Some st1"
      using projection_year_props by blast
    from "1.IH"[OF True st1] show ?thesis
      unfolding projection_loop_step[OF True st1] .
  qed
qed

lemma projection_loop_keeps_depletion:
  assumes "depletionAge_acc st = Some d"
    and "projection_loop goal assm s0 b0 pc cy a e st = Some st'"
  shows "depletionAge_acc st' = Some d"
  using assms
proof (induction goal assm s0 b0 pc cy a e st rule: projection_loop.induct)
  case (1 goal assm s0 b0 pc cy a e st)
  show ?case
  proof (cases "a \<le> e")
    case False
    with "1.prems" show ?thesis by (simp add: projection_loop_done)
  next
    case True
    obtain st1 where st1: "projection_year goal assm s0 b0 pc cy a st = Some st1"
      and d1: "depletionAge_acc st1 =
       (if totalBalance st \<le> 0 \<and> depletionAge_acc st = None then Some a
        else depletionAge_acc st)"
      using projection_year_props by blast
    from d1 "1.prems"(1) have "depletionAge_acc st1 = Some d" by simp
    from "1.IH"[OF True st1 this] "1.prems"(2) show ?thesis
      unfolding projection_loop_step[OF True st1] by simp
  qed
qed

lemma projection_loop_depletion:
  assumes "depletionAge_acc st = None"
    and "projection_loop goal assm s0 b0 pc cy a e st = Some st'"
  shows "case depletionAge_acc st' of
           None \<Rightarrow> \<forall>k \<in> {a..e}. \<exists>x. balanceAtStart goal assm s0 b0 pc cy a st k = Some x \<and> 0 < x
         | Some d \<Rightarrow> a \<le> d \<and> d \<le> e \<and>
             (\<exists>x. balanceAtStart goal assm s0 b0 pc cy a st d = Some x \<and> x \<le> 0) \<and>
             (\<forall>k \<in> {a..<d}. \<exists>x. balanceAtStart goal assm s0 b0 pc cy a st k = Some x \<and> 0 < x)"
  using assms
proof (induction goal assm s0 b0 pc cy a e st rule: projection_loop.induct)
  case (1 goal assm s0 b0 pc cy a e st)
  have here: "balanceAtStart goal assm s0 b0 pc cy a st a = Some (totalBalance st)"
    by (simp add: balanceAtStart_def projection_loop_done)
  show ?case
  proof (cases "a \<le> e")
    case False
    with "1.prems" show ?thesis by (simp add: projection_loop_done)
  next
    case True
    obtain st1 where st1: "projection_year goal assm s0 b0 pc cy a st = Some st1"
      and d1: "depletionAge_acc st1 =
       (if totalBalance st \<le> 0 \<and> depletionAge_acc st = None then Some a
        else depletionAge_acc st)"
      using projection_year_props by blast
    have rest: "projection_loop goal assm s0 b0 pc cy (a + 1) e st1 = Some st'"
      using "1.prems"(2) unfolding projection_loop_step[OF True st1] .
    have later: "balanceAtStart goal assm s0 b0 pc cy a st k =
        balanceAtStart goal assm s0 b0 pc cy (a + 1) st1 k" if "a < k" for k
      using that st1 by (simp add: balanceAtStart_def projection_loop_step)
    show ?thesis
    proof (cases "totalBalance st \<le> 0")
      case dep: True
      with d1 "1.prems"(1) have "depletionAge_acc st1 = Some a" by simp
      from projection_loop_keeps_depletion[OF this rest]
      show ?thesis using True dep here by simp
    next
      case pos: False
      with d1 "1.prems"(1) have n1: "depletionAge_acc st1 = None" by simp
      note ih = "1.IH"[OF True st1 n1 rest]
      show ?thesis
      proof (cases "depletionAge_acc st'")
        case None
        with ih have "\<forall>k \<in> {a + 1..e}. \<exists>x.
            balanceAtStart goal assm s0 b0 pc cy (a + 1) st1 k = Some x \<and> 0 < x" by simp
        then have r: "\<forall>k \<in> {a + 1..e}. \<exists>x.
            balanceAtStart goal assm s0 b0 pc cy (a + 1) st1 k = Some x \<and> 0 < x" .
        have "\<exists>x. balanceAtStart goal assm s0 b0 pc cy a st k = Some x \<and> 0 < x"
          if "k \<in> {a..e}" for k
        proof (cases "k = a")
          case True
          with here pos show ?thesis by simp
        next
          case False
          with that have "a < k" "k \<in> {a + 1..e}" by simp_all
          with r later[of k] show ?thesis by simp
        qed
        with None show ?thesis by simp
      next
        case (Some d)
        with ih have d: "a + 1 \<le> d" "d \<le> e"
          "\<exists>x. balanceAtStart goal assm s0 b0 pc cy (a + 1) st1 d = Some x \<and> x \<le> 0"
          "\<forall>k \<in> {a + 1..<d}. \<exists>x.
            balanceAtStart goal assm s0 b0 pc cy (a + 1) st1 k = Some x \<and> 0 < x" by simp_all
        have "\<exists>x. balanceAtStart goal assm s0 b0 pc cy a st k = Some x \<and> 0 < x"
          if "k \<in> {a..<d}" for k
        proof (cases "k = a")
          case True
          with here pos show ?thesis by simp
        next
          case False
          with that have "a < k" "k \<in> {a + 1..<d}" by simp_all
          with d(4) later[of k] show ?thesis by simp
        qed
        moreover from d(1) have "a < d" by simp
        ultimately show ?thesis using Some d later[of d] by simp
      qed
    qed
  qed
qed


text \<open>
  Claim C8. \<open>generateRetirementProjection\<close> returns a projection in which
  \<open>isSustainable\<close> holds exactly when \<open>depletionAge\<close> is \<open>null\<close>; a recorded depletion age
  is the first age of the loop at which the running traditional + taxable + Roth total,
  taken at the beginning of that year, is at most 0; and when no age is recorded that
  total is positive at the beginning of every year of the loop. In particular a
  projection whose balances are used up at the beginning of some year of the loop
  reports \<open>isSustainable = false\<close>.
\<close>

theorem projection_depletion:
  "\<exists>r. generateRetirementProjection p g assm s0 b0 cy = Some r \<and>
       isSustainable r = (depletionAge r = None) \<and>
       (case depletionAge r of
          None \<Rightarrow>
            \<forall>k \<in> {primaryAge g..planningHorizon g}.
              \<exists>x. beginningBalance p g assm s0 b0 cy k = Some x \<and> 0 < x
        | Some d \<Rightarrow>
            primaryAge g \<le> d \<and> d \<le> planningHorizon g \<and>
            (\<exists>x. beginningBalance p g assm s0 b0 cy d = Some x \<and> x \<le> 0) \<and>
            (\<forall>k \<in> {primaryAge g..<d}.
               \<exists>x. beginningBalance p g assm s0 b0 cy k = Some x \<and> 0 < x)) \<and>
       ((\<exists>k x. primaryAge g \<le> k \<and> k \<le> planningHorizon g \<and>
               beginningBalance p g assm s0 b0 cy k = Some x \<and> x \<le> 0) \<longrightarrow>
        \<not> isSustainable r)"
proof -
  obtain st where st: "projection_loop g assm s0 b0 (pensionCola_of p) cy
      (primaryAge g) (planningHorizon g) (initialState p) = Some st"
    using projection_loop_total by blast
  define r where "r =
     \<lparr>startAge = primaryAge g, endAge = planningHorizon g, assumptions = assm,
      years = years_acc st, totalTaxesPaid = round_js (taxesPaid_acc st),
      totalWithdrawals = round_js (withdrawals_acc st),
      finalPortfolioValue =
        round_js (traditionalBalance st + taxableBalance st + rothBalance st),
      isSustainable = (depletionAge_acc st = None), depletionAge = depletionAge_acc st\<rparr>"
  have ret: "generateRetirementProjection p g assm s0 b0 cy = Some r"
    using st by (simp add: generateRetirementProjection_def r_def)
  have sus: "isSustainable r = (depletionAge r = None)" by (simp add: r_def)
  have "depletionAge_acc (initialState p) = None" by (simp add: initialState_def)
  from projection_loop_depletion[OF this st]
  have first: "case depletionAge r of
          None \<Rightarrow>
            \<forall>k \<in> {primaryAge g..planningHorizon g}.
              \<exists>x. beginningBalance p g assm s0 b0 cy k = Some x \<and> 0 < x
        | Some d \<Rightarrow>
            primaryAge g \<le> d \<and> d \<le> planningHorizon g \<and>
            (\<exists>x. beginningBalance p g assm s0 b0 cy d = Some x \<and> x \<le> 0) \<and>
            (\<forall>k \<in> {primaryAge g..<d}.
               \<exists>x. beginningBalance p g assm s0 b0 cy k = Some x \<and> 0 < x)"
    unfolding beginningBalance_def by (simp add: r_def)
  have "\<not> isSustainable r"
    if "primaryAge g \<le> k" "k \<le> planningHorizon g"
      "beginningBalance p g assm s0 b0 cy k = Some x" "x \<le> 0" for k x
  proof
    assume "isSustainable r"
    with sus have "depletionAge r = None" by simp
    with first that(1,2) have "\<exists>y. beginningBalance p g assm s0 b0 cy k = Some y \<and> 0 < y"
      by simp
    with that(3,4) show False by simp
  qed
  then have "(\<exists>k x. primaryAge g \<le> k \<and> k \<le> planningHorizon g \<and>
               beginningBalance p g assm s0 b0 cy k = Some x \<and> x \<le> 0) \<longrightarrow>
        \<not> isSustainable r" by blast
  with ret sus first show ?thesis by (intro exI[of _ r] conjI)
qed

theorem projection_depletion_witness:
  "\<exists>r. generateRetirementProjection scenario_portfolio (example_goal\<lparr>amount_goal := 300000\<rparr>)
         zero_growth None None 2026 = Some r \<and>
       isSustainable r = False \<and> depletionAge r = Some 75 \<and>
       primaryAge (example_goal\<lparr>amount_goal := 300000\<rparr>) = 73 \<and>
       planningHorizon (example_goal\<lparr>amount_goal := 300000\<rparr>) = 76 \<and>
       beginningBalance scenario_portfolio (example_goal\<lparr>amount_goal := 300000\<rparr>)
         zero_growth None None 2026 73 = Some 500000 \<and>
       beginningBalance scenario_portfolio (example_goal\<lparr>amount_goal := 300000\<rparr>)
         zero_growth None None 2026 74 = Some 200000 \<and>
       beginningBalance scenario_portfolio (example_goal\<lparr>amount_goal := 300000\<rparr>)
         zero_growth None None 2026 75 = Some 0"
proof -
  have ev: "map_option (\<lambda>r. (isSustainable r, depletionAge r))
      (generateRetirementProjection scenario_portfolio (example_goal\<lparr>amount_goal := 300000\<rparr>)
         zero_growth None None 2026) = Some (False, Some 75)"
    by code_simp
  have b: "beginningBalance scenario_portfolio (example_goal\<lparr>amount_goal := 300000\<rparr>)
         zero_growth None None 2026 73 = Some 500000"
    "beginningBalance scenario_portfolio (example_goal\<lparr>amount_goal := 300000\<rparr>)
         zero_growth None None 2026 74 = Some 200000"
    "beginningBalance scenario_portfolio (example_goal\<lparr>amount_goal := 300000\<rparr>)
         zero_growth None None 2026 75 = Some 0"
    by code_simp+
  have a: "primaryAge (example_goal\<lparr>amount_goal := 300000\<rparr>) = 73"
    "planningHorizon (example_goal\<lparr>amount_goal := 300000\<rparr>) = 76"
    by (simp_all add: example_goal_def)
  from projection_depletion[of scenario_portfolio "example_goal\<lparr>amount_goal := 300000\<rparr>"
      zero_growth None None 2026] ev b a
  show ?thesis by auto
qed

end
